theory Spec2Isabelle
  imports Main "HOL-Library.Word"
begin

unbundle bit_operations_syntax

section \<open>Common USB types\<close>

type_synonym uint8_t = "8 word"
type_synonym uint16_t = "16 word"
type_synonym uint32_t = "32 word"

text \<open>A C pointer into application or descriptor memory is an address; \<open>NULL\<close> is 0.\<close>

type_synonym ptr = nat

definition NULL :: ptr where
  "NULL = 0"

text \<open>The 8-byte SETUP packet, \<open>tusb_control_request_t\<close>.\<close>

record tusb_control_request =
  bmRequestType :: uint8_t
  bRequest :: uint8_t
  wValue :: uint16_t
  wIndex :: uint16_t
  wLength :: uint16_t

text \<open>Modelled from the spec: the bit-field view \<open>bmRequestType_bit\<close> of the request type
  (its declaration, \<open>common/tusb_types.h\<close>, is not among the sources). The spec names the
  three subfields direction, type and recipient; their positions are those of USB 2.0,
  which the spec's scenarios use (\<open>0xC0\<close> is vendor, device, IN; \<open>0xA1\<close> is class,
  interface, IN; \<open>0x21\<close> is class, interface, OUT).
\<close>

definition bmRequestType_bit_recipient :: "tusb_control_request \<Rightarrow> uint8_t" where
  "bmRequestType_bit_recipient r = bmRequestType r AND 0x1F"

definition bmRequestType_bit_type :: "tusb_control_request \<Rightarrow> uint8_t" where
  "bmRequestType_bit_type r = drop_bit 5 (bmRequestType r) AND 0x03"

definition bmRequestType_bit_direction :: "tusb_control_request \<Rightarrow> uint8_t" where
  "bmRequestType_bit_direction r = drop_bit 7 (bmRequestType r)"

text \<open>Modelled from the spec: the enumerators for the request type and recipient, the
  control stages and the transfer results (\<open>common/tusb_types.h\<close> and \<open>device/usbd_pvt.h\<close>
  are not among the sources). The spec names the types standard, class and vendor, the
  recipients device and interface, the stages SETUP, DATA and ACK and the results success,
  failed and stalled; the numbers are those of USB 2.0 and, for the stages, their order.\<close>

definition TUSB_REQ_TYPE_STANDARD :: uint8_t where "TUSB_REQ_TYPE_STANDARD = 0"
definition TUSB_REQ_TYPE_CLASS :: uint8_t where "TUSB_REQ_TYPE_CLASS = 1"
definition TUSB_REQ_TYPE_VENDOR :: uint8_t where "TUSB_REQ_TYPE_VENDOR = 2"

definition TUSB_REQ_RCPT_DEVICE :: uint8_t where "TUSB_REQ_RCPT_DEVICE = 0"
definition TUSB_REQ_RCPT_INTERFACE :: uint8_t where "TUSB_REQ_RCPT_INTERFACE = 1"

definition CONTROL_STAGE_SETUP :: uint8_t where "CONTROL_STAGE_SETUP = 1"
definition CONTROL_STAGE_DATA :: uint8_t where "CONTROL_STAGE_DATA = 2"
definition CONTROL_STAGE_ACK :: uint8_t where "CONTROL_STAGE_ACK = 3"

datatype xfer_result_t = XFER_RESULT_SUCCESS | XFER_RESULT_FAILED | XFER_RESULT_STALLED

text \<open>Modelled from the spec: \<open>tu_u16_high\<close> and \<open>tu_u16_low\<close> (\<open>common/tusb_common.h\<close> is
  not among the sources), the spec's \<open>high(wValue)\<close> and \<open>low(wValue)\<close>.\<close>

definition tu_u16_high :: "uint16_t \<Rightarrow> uint8_t" where
  "tu_u16_high v = ucast (drop_bit 8 v)"

definition tu_u16_low :: "uint16_t \<Rightarrow> uint8_t" where
  "tu_u16_low v = ucast (v AND 0x00FF)"

section \<open>The device stack's endpoint primitives\<close>

text \<open>Per-endpoint status kept by the stack: a transfer is queued (busy), or a driver has
  reserved the endpoint for its next transfer (claimed).\<close>

record tu_edpt_state =
  busy :: bool
  claimed :: bool

type_synonym usbd_ep_status = "uint8_t \<Rightarrow> tu_edpt_state"

text \<open>Modelled from the spec: \<open>usbd_edpt_claim\<close> of the device stack (\<open>device/usbd.c\<close> is not
  among the sources). The spec: "Claim the IN endpoint (fails if already claimed or busy;
  this is the at-most-one-outstanding guarantee)" and "Endpoint claim: a host-stack
  primitive guaranteeing at-most-one outstanding transfer per endpoint; fails fast if
  busy". A failed claim changes nothing.
\<close>

definition usbd_edpt_claim ::
  "uint8_t \<Rightarrow> uint8_t \<Rightarrow> usbd_ep_status \<Rightarrow> bool \<times> usbd_ep_status" where
  "usbd_edpt_claim rhp ep_addr st =
     (if busy (st ep_addr) \<or> claimed (st ep_addr) then (False, st)
      else (True, st(ep_addr := (st ep_addr)\<lparr>claimed := True\<rparr>)))"

text \<open>Modelled from the spec: the status effect of \<open>usbd_edpt_xfer\<close> (\<open>device/usbd.c\<close> is
  not among the sources). The spec only says that a transfer is enqueued on the endpoint
  and stays outstanding until the transfer-complete callback; the model marks the
  endpoint busy and reports success. Each driver below records the call itself (port,
  endpoint, buffer, length) in its trace.
\<close>

definition usbd_edpt_xfer_status :: "uint8_t \<Rightarrow> usbd_ep_status \<Rightarrow> bool \<times> usbd_ep_status" where
  "usbd_edpt_xfer_status ep_addr st = (True, st(ep_addr := (st ep_addr)\<lparr>busy := True\<rparr>))"

section \<open>Descriptor walking\<close>

text \<open>Descriptors live in read-only memory, a map from addresses to bytes.\<close>

type_synonym memory = "ptr \<Rightarrow> uint8_t"

text \<open>Modelled from the spec: the descriptor helpers and layouts (\<open>common/tusb_types.h\<close> is
  not among the sources). The spec treats the configuration descriptor as a packed byte
  stream of USB 2.0 descriptors: each starts with its own length and its type, so
  \<open>tu_desc_next\<close> adds the byte at offset 0 and \<open>tu_desc_type\<close> reads offset 1; an
  interface descriptor has 9 bytes (number at offset 2, endpoint count at 4, class,
  subclass and protocol at 5, 6, 7), an endpoint descriptor 7 bytes (type 5, address at
  offset 2, transfer type in the low two bits of offset 3, interrupt = 3).\<close>

definition tu_desc_next :: "memory \<Rightarrow> ptr \<Rightarrow> ptr" where
  "tu_desc_next mem p = p + unat (mem p)"

definition tu_desc_type :: "memory \<Rightarrow> ptr \<Rightarrow> uint8_t" where
  "tu_desc_type mem p = mem (p + 1)"

definition bNumEndpoints :: "memory \<Rightarrow> ptr \<Rightarrow> uint8_t" where
  "bNumEndpoints mem p = mem (p + 4)"

definition bInterfaceNumber :: "memory \<Rightarrow> ptr \<Rightarrow> uint8_t" where
  "bInterfaceNumber mem p = mem (p + 2)"

definition bInterfaceClass :: "memory \<Rightarrow> ptr \<Rightarrow> uint8_t" where
  "bInterfaceClass mem p = mem (p + 5)"

definition bInterfaceSubClass :: "memory \<Rightarrow> ptr \<Rightarrow> uint8_t" where
  "bInterfaceSubClass mem p = mem (p + 6)"

definition bInterfaceProtocol :: "memory \<Rightarrow> ptr \<Rightarrow> uint8_t" where
  "bInterfaceProtocol mem p = mem (p + 7)"

definition sizeof_tusb_desc_interface_t :: nat where "sizeof_tusb_desc_interface_t = 9"
definition sizeof_tusb_desc_endpoint_t :: nat where "sizeof_tusb_desc_endpoint_t = 7"

definition TUSB_DESC_ENDPOINT :: uint8_t where "TUSB_DESC_ENDPOINT = 5"
definition TUSB_XFER_INTERRUPT :: uint8_t where "TUSB_XFER_INTERRUPT = 3"

text \<open>Modelled from the spec: \<open>usbd_open_edpt_pair\<close> of the device stack (\<open>device/usbd.c\<close>
  is not among the sources). The spec: "then exactly \<open>bNumEndpoints\<close> endpoint
  descriptors", "Acquire an interrupt IN/OUT endpoint pair"; the drivers' comment: "Check
  if both endpoints are interrupt endpoints and assign the endpoints of the descriptor".
  The model walks \<open>ep_count\<close> descriptors from \<open>p_desc\<close>, fails at the first that is not
  an endpoint descriptor of the wanted transfer type, and stores each address by its
  direction bit (bit 7 set is IN). The result is the success flag and the two output
  parameters, which keep what was written before a failure.
\<close>

fun usbd_open_edpt_pair ::
  "memory \<Rightarrow> ptr \<Rightarrow> nat \<Rightarrow> uint8_t \<Rightarrow> uint8_t \<Rightarrow> uint8_t \<Rightarrow> bool \<times> uint8_t \<times> uint8_t" where
  "usbd_open_edpt_pair mem p_desc 0 xfer_type e_out e_in = (True, e_out, e_in)"
| "usbd_open_edpt_pair mem p_desc (Suc n) xfer_type e_out e_in =
     (if \<not> (TUSB_DESC_ENDPOINT = tu_desc_type mem p_desc
             \<and> xfer_type = mem (p_desc + 3) AND 0x03)
      then (False, e_out, e_in)
      else if mem (p_desc + 2) AND 0x80 \<noteq> 0
      then usbd_open_edpt_pair mem (tu_desc_next mem p_desc) n xfer_type e_out (mem (p_desc + 2))
      else usbd_open_edpt_pair mem (tu_desc_next mem p_desc) n xfer_type (mem (p_desc + 2)) e_in)"

section \<open>Driver instances\<close>

text \<open>Both drivers start their instance struct with the same four identifying fields and
  search their instance array with the same three loops.\<close>

record instance_ids =
  rhport :: uint8_t
  itf_num :: uint8_t
  ep_in :: uint8_t
  ep_out :: uint8_t

text \<open>\<open>get_free_instance\<close>: the first slot whose two endpoint addresses are both zero.
  The extra argument is the loop counter; the result is the slot's index.\<close>

fun get_free_instance_from :: "nat \<Rightarrow> 'a instance_ids_scheme list \<Rightarrow> nat option" where
  "get_free_instance_from instance [] = None"
| "get_free_instance_from instance (p_itf # rest) =
     (if 0 = ep_in p_itf \<and> 0 = ep_out p_itf then Some instance
      else get_free_instance_from (Suc instance) rest)"

definition get_free_instance :: "'a instance_ids_scheme list \<Rightarrow> nat option" where
  "get_free_instance instances = get_free_instance_from 0 instances"

text \<open>\<open>get_instance_by_ep\<close>: the first slot one of whose endpoints is \<open>ep_addr\<close>.\<close>

fun get_instance_by_ep_from :: "nat \<Rightarrow> 'a instance_ids_scheme list \<Rightarrow> uint8_t \<Rightarrow> nat option" where
  "get_instance_by_ep_from instance [] ep_addr = None"
| "get_instance_by_ep_from instance (p_itf # rest) ep_addr =
     (if ep_addr = ep_in p_itf \<or> ep_addr = ep_out p_itf then Some instance
      else get_instance_by_ep_from (Suc instance) rest ep_addr)"

definition get_instance_by_ep :: "'a instance_ids_scheme list \<Rightarrow> uint8_t \<Rightarrow> nat option" where
  "get_instance_by_ep instances ep_addr = get_instance_by_ep_from 0 instances ep_addr"

text \<open>\<open>get_instance_by_itf\<close>: the first slot that is not free and carries the interface
  number.\<close>

fun get_instance_by_itf_from :: "nat \<Rightarrow> 'a instance_ids_scheme list \<Rightarrow> uint8_t \<Rightarrow> nat option" where
  "get_instance_by_itf_from instance [] n = None"
| "get_instance_by_itf_from instance (p_itf # rest) n =
     (if n = itf_num p_itf \<and> (0 \<noteq> ep_in p_itf \<or> 0 \<noteq> ep_out p_itf) then Some instance
      else get_instance_by_itf_from (Suc instance) rest n)"

definition get_instance_by_itf :: "'a instance_ids_scheme list \<Rightarrow> uint8_t \<Rightarrow> nat option" where
  "get_instance_by_itf instances n = get_instance_by_itf_from 0 instances n"

section \<open>What the drivers ask of the stack and of the application\<close>

text \<open>The state a driver runs in: its instance array, the stack's endpoint status, and the
  calls the driver has made to the stack and to the application, oldest first. The buffer
  argument of a call is a reference (type \<open>'b\<close>), not a copy of the bytes.\<close>

datatype ('b, 'cb) usbd_call =
  Usbd_edpt_xfer uint8_t uint8_t 'b uint16_t
  | Tud_control_xfer uint8_t tusb_control_request 'b uint16_t
  | Tud_control_status uint8_t tusb_control_request
  | App_callback 'cb

record ('i, 'e) usbd_state =
  instances :: "'i list"
  ep_status :: usbd_ep_status
  calls :: "'e list"

text \<open>\<open>usbd_edpt_xfer\<close>: records the call and applies the status effect modelled above.\<close>

definition usbd_edpt_xfer ::
  "uint8_t \<Rightarrow> uint8_t \<Rightarrow> 'b \<Rightarrow> uint16_t \<Rightarrow> ('i, ('b, 'cb) usbd_call) usbd_state
     \<Rightarrow> bool \<times> ('i, ('b, 'cb) usbd_call) usbd_state" where
  "usbd_edpt_xfer rhp ep_addr buffer total_bytes s =
     (case usbd_edpt_xfer_status ep_addr (ep_status s) of
        (ok, st) \<Rightarrow>
          (ok, s\<lparr>ep_status := st,
                 calls := calls s @ [Usbd_edpt_xfer rhp ep_addr buffer total_bytes]\<rparr>))"

text \<open>Modelled from the spec: \<open>tud_control_xfer\<close> and \<open>tud_control_status\<close> of the device
  stack (\<open>device/usbd_control.c\<close> is not among the sources). The spec only speaks of
  "reply with" a buffer and of "send zero-length status", and leaves the data and status
  stages to the stack; the model records the call and reports success.
\<close>

definition tud_control_xfer ::
  "uint8_t \<Rightarrow> tusb_control_request \<Rightarrow> 'b \<Rightarrow> uint16_t \<Rightarrow> ('i, ('b, 'cb) usbd_call) usbd_state
     \<Rightarrow> bool \<times> ('i, ('b, 'cb) usbd_call) usbd_state" where
  "tud_control_xfer rhp request buffer len s =
     (True, s\<lparr>calls := calls s @ [Tud_control_xfer rhp request buffer len]\<rparr>)"

definition tud_control_status ::
  "uint8_t \<Rightarrow> tusb_control_request \<Rightarrow> ('i, ('b, 'cb) usbd_call) usbd_state
     \<Rightarrow> bool \<times> ('i, ('b, 'cb) usbd_call) usbd_state" where
  "tud_control_status rhp request s =
     (True, s\<lparr>calls := calls s @ [Tud_control_status rhp request]\<rparr>)"

text \<open>A weak application callback returning nothing is modelled by its presence and by the
  record of its invocation.\<close>

definition invoke :: "'cb \<Rightarrow> ('i, ('b, 'cb) usbd_call) usbd_state \<Rightarrow> ('i, ('b, 'cb) usbd_call) usbd_state" where
  "invoke cb s = s\<lparr>calls := calls s @ [App_callback cb]\<rparr>"

text \<open>\<open>memcpy(dest + off, src, n)\<close> on byte arrays.\<close>

definition memcpy :: "uint8_t list \<Rightarrow> nat \<Rightarrow> uint8_t list \<Rightarrow> nat \<Rightarrow> uint8_t list" where
  "memcpy dest off src n = take off dest @ take n src @ drop (off + n) dest"

text \<open>Modelled from the spec: \<open>tu_memcpy_s(dest, destsz, src, count)\<close> (\<open>common/tusb_common.h\<close>
  is not among the sources). The spec: "copy the configured serial string (raw bytes, no
  NUL terminator) into the IN scratch buffer"; the driver treats a non-zero result as
  failure. The model refuses a count larger than the destination and copies otherwise.
\<close>

definition tu_memcpy_s :: "uint8_t list \<Rightarrow> nat \<Rightarrow> uint8_t list \<Rightarrow> nat \<Rightarrow> int \<times> uint8_t list" where
  "tu_memcpy_s dest destsz src count =
     (if count > destsz then (- 1, dest) else (0, memcpy dest 0 src count))"

section \<open>X360 class driver\<close>

subsection \<open>Constants and messages (x360.h, x360\_device.h, tusb\_config.h)\<close>

definition X360_TRANSFER_IN_BUFFER_SIZE :: nat where "X360_TRANSFER_IN_BUFFER_SIZE = 0x14"
definition X360_TRANSFER_OUT_BUFFER_SIZE :: nat where "X360_TRANSFER_OUT_BUFFER_SIZE = 0x8"

definition X360_CLASS_CONTROL :: uint8_t where "X360_CLASS_CONTROL = 0xff"
definition X360_SUBCLASS_CONTROL :: uint8_t where "X360_SUBCLASS_CONTROL = 0x5d"
definition X360_PROTOCOL_CONTROL :: uint8_t where "X360_PROTOCOL_CONTROL = 0x01"
definition X360_CLASS_SPECIFIC_TYPE :: uint8_t where "X360_CLASS_SPECIFIC_TYPE = 0x21"

definition X360_HANDLE_RUMBLE :: uint16_t where "X360_HANDLE_RUMBLE = 0x0000"
definition X360_HANDLE_CONTROL :: uint16_t where "X360_HANDLE_CONTROL = 0x0100"
definition X360_HANDLE_SERIAL :: uint16_t where "X360_HANDLE_SERIAL = 0x0000"

definition X360_MESSAGE_TYPE_OUT_RUMBLE :: uint8_t where "X360_MESSAGE_TYPE_OUT_RUMBLE = 0x00"
definition X360_MESSAGE_TYPE_OUT_LED :: uint8_t where "X360_MESSAGE_TYPE_OUT_LED = 0x01"
definition X360_MESSAGE_TYPE_IN_INPUT :: uint8_t where "X360_MESSAGE_TYPE_IN_INPUT = 0x00"

text \<open>\<open>x360_led_animations_t\<close>: the stored animation is whatever byte the host sent, so
  the field is a byte; the enumerators name the values \<open>0x00\<close> to \<open>0x0f\<close>.\<close>

definition X360_LED_ALL_OFF :: uint8_t where "X360_LED_ALL_OFF = 0x00"
definition X360_LED_SLOT_1_ON :: uint8_t where "X360_LED_SLOT_1_ON = 0x06"

text \<open>Sizes of the packed structs: the controls are a union over \<open>bytes[18]\<close>, the
  messages unions over \<open>bytes[20]\<close>, \<open>bytes[8]\<close> and \<open>bytes[3]\<close>; the class-specific
  descriptor has 2 + 3 + 7 + 5 bytes.\<close>

definition sizeof_x360_controls_t :: nat where "sizeof_x360_controls_t = 18"
definition sizeof_x360_message_controls_t :: nat where "sizeof_x360_message_controls_t = 20"
definition sizeof_x360_message_rumble_t :: nat where "sizeof_x360_message_rumble_t = 8"
definition sizeof_x360_message_led_t :: nat where "sizeof_x360_message_led_t = 3"
definition sizeof_x360_desc_specific_class_t :: nat where "sizeof_x360_desc_specific_class_t = 17"

text \<open>The build's settings. \<open>X360_SERIAL_NUMBER\<close> is the string literal \<open>"ABC"\<close>, an array
  of four chars with its terminating NUL, so \<open>sizeof\<close> is its length.\<close>

definition X360_SERIAL_NUMBER :: "uint8_t list" where
  "X360_SERIAL_NUMBER = [0x41, 0x42, 0x43, 0x00]"

definition X360_RUMBLE_SUPPORT :: "uint8_t list" where
  "X360_RUMBLE_SUPPORT = [0x0, 0x0]"

definition X360_INPUT_SUPPORT :: "uint8_t list" where
  "X360_INPUT_SUPPORT =
     [0xFF, 0xF7, 0xFF, 0xFF, 0x00, 0xFF, 0x00, 0xFF, 0x00, 0xFF, 0x00, 0xFF,
      0x00, 0x00, 0x00, 0x00, 0x00, 0x00]"

definition MS_OS_DESCRIPTOR_VENDORCODE :: uint8_t where "MS_OS_DESCRIPTOR_VENDORCODE = 0x42"
definition MS_EXTENDED_COMPATID_DESCRIPTOR :: uint16_t where "MS_EXTENDED_COMPATID_DESCRIPTOR = 0x04"
definition MS_EXTENDED_PROPERTIES_DESCRIPTOR :: uint16_t where "MS_EXTENDED_PROPERTIES_DESCRIPTOR = 0x05"

text \<open>\<open>x360_controls_t\<close> is a union whose largest member is \<open>bytes[18]\<close>: a value of the
  type is its 18 bytes. \<open>x360_message_controls_t\<close> overlays \<open>bytes[20]\<close> with the header
  followed by the controls; reading its members back from 20 bytes: \<close>

type_synonym x360_controls_t = "uint8_t list"

definition x360_message_header_of :: "uint8_t list \<Rightarrow> uint8_t \<times> uint8_t" where
  "x360_message_header_of bytes = (bytes ! 0, bytes ! 1)"

definition x360_controls_of :: "uint8_t list \<Rightarrow> x360_controls_t" where
  "x360_controls_of bytes = take sizeof_x360_controls_t (drop 2 bytes)"

subsection \<open>Instances, buffers, callbacks\<close>

record x360d_instance = instance_ids +
  transfer_in_buf :: "uint8_t list"
  transfer_out_buf :: "uint8_t list"
  led :: uint8_t

text \<open>A buffer handed to the stack: the IN or OUT array of instance \<open>i\<close>, or application
  memory.\<close>

datatype x360_buffer = Transfer_in_buf nat | Transfer_out_buf nat | App_buffer ptr

datatype x360_callback =
  X360d_report_issue_cb uint8_t uint8_t xfer_result_t uint32_t
  | X360d_report_complete_cb uint8_t x360_buffer uint16_t
  | X360d_received_led_cb uint8_t uint8_t
  | X360d_received_rumble_cb uint8_t uint8_t uint8_t

text \<open>Which weak callbacks the application defines. The two MS OS providers return a
  buffer and write its length.\<close>

record x360_app =
  x360d_report_issue_cb :: bool
  x360d_report_complete_cb :: bool
  x360d_received_led_cb :: bool
  x360d_received_rumble_cb :: bool
  tud_descriptor_ms_compatid_cb :: "(ptr \<times> uint16_t) option"
  tud_descriptor_ms_property_cb :: "(ptr \<times> uint16_t) option"

type_synonym x360d_state = "(x360d_instance, (x360_buffer, x360_callback) usbd_call) usbd_state"

definition x360d_instance_zero :: x360d_instance where
  "x360d_instance_zero =
     \<lparr>rhport = 0, itf_num = 0, ep_in = 0, ep_out = 0,
      transfer_in_buf = replicate X360_TRANSFER_IN_BUFFER_SIZE 0,
      transfer_out_buf = replicate X360_TRANSFER_OUT_BUFFER_SIZE 0,
      led = 0\<rparr>"

subsection \<open>Application API\<close>

definition x360d_n_report :: "uint8_t \<Rightarrow> x360_controls_t \<Rightarrow> x360d_state \<Rightarrow> bool \<times> x360d_state" where
  "x360d_n_report n report s =
     (case get_instance_by_itf (instances s) n of
        None \<Rightarrow> (False, s)
      | Some i \<Rightarrow>
          let p_itf = instances s ! i in
          (case usbd_edpt_claim (rhport p_itf) (ep_in p_itf) (ep_status s) of
             (False, st) \<Rightarrow> (False, s\<lparr>ep_status := st\<rparr>)
           | (True, st) \<Rightarrow>
               let len = sizeof_x360_message_controls_t in
               if \<not> len \<le> X360_TRANSFER_IN_BUFFER_SIZE then (False, s\<lparr>ep_status := st\<rparr>)
               else
                 let buffer = (transfer_in_buf p_itf)
                       [0 := X360_MESSAGE_TYPE_IN_INPUT,
                        1 := of_nat sizeof_x360_message_controls_t];
                     buffer = memcpy buffer 2 report sizeof_x360_controls_t
                 in usbd_edpt_xfer (rhport p_itf) (ep_in p_itf) (Transfer_in_buf i) (of_nat len)
                      (s\<lparr>instances := (instances s)[i := p_itf\<lparr>transfer_in_buf := buffer\<rparr>],
                         ep_status := st\<rparr>)))"

subsection \<open>Class driver API\<close>

definition x360d_reset :: "uint8_t \<Rightarrow> x360d_state \<Rightarrow> x360d_state" where
  "x360d_reset rhp s = s\<lparr>instances := map (\<lambda>_. x360d_instance_zero) (instances s)\<rparr>"

definition x360d_init :: "x360d_state \<Rightarrow> x360d_state" where
  "x360d_init s = x360d_reset 0 s"

definition x360d_open :: "memory \<Rightarrow> uint8_t \<Rightarrow> ptr \<Rightarrow> uint16_t \<Rightarrow> x360d_state \<Rightarrow> uint16_t \<times> x360d_state" where
  "x360d_open mem rhp desc_itf max_len s =
     (if \<not> (X360_CLASS_CONTROL = bInterfaceClass mem desc_itf
             \<and> X360_SUBCLASS_CONTROL = bInterfaceSubClass mem desc_itf
             \<and> X360_PROTOCOL_CONTROL = bInterfaceProtocol mem desc_itf)
      then (0, s)
      else
        let drv_len = (of_nat (sizeof_tusb_desc_interface_t + sizeof_x360_desc_specific_class_t
                         + unat (bNumEndpoints mem desc_itf) * sizeof_tusb_desc_endpoint_t) :: uint16_t)
        in
        if \<not> max_len \<ge> drv_len then (0, s)
        else
          (case get_free_instance (instances s) of
             None \<Rightarrow> (0, s)
           | Some i \<Rightarrow>
               let p_itf = instances s ! i;
                   p_desc = tu_desc_next mem desc_itf
               in
               if \<not> X360_CLASS_SPECIFIC_TYPE = tu_desc_type mem p_desc then (0, s)
               else
                 let p_desc = tu_desc_next mem p_desc in
                 (case usbd_open_edpt_pair mem p_desc (unat (bNumEndpoints mem desc_itf))
                         TUSB_XFER_INTERRUPT (ep_out p_itf) (ep_in p_itf) of
                    (False, e_out, e_in) \<Rightarrow>
                      (0, s\<lparr>instances := (instances s)[i := p_itf\<lparr>ep_in := e_in, ep_out := e_out\<rparr>]\<rparr>)
                  | (True, e_out, e_in) \<Rightarrow>
                      let p_itf = p_itf\<lparr>ep_in := e_in, ep_out := e_out,
                                         itf_num := bInterfaceNumber mem desc_itf, rhport := rhp\<rparr>;
                          s = s\<lparr>instances := (instances s)[i := p_itf]\<rparr>
                      in
                      if ep_out p_itf = 0 then (drv_len, s)
                      else (drv_len,
                            snd (usbd_edpt_xfer rhp (ep_out p_itf) (Transfer_out_buf i)
                                   (of_nat X360_TRANSFER_OUT_BUFFER_SIZE) s)))))"

text \<open>\<open>x360d_report_out_received\<close>: classify the message in the OUT buffer of instance
  \<open>i\<close>. The byte count arrives narrowed to 16 bits.\<close>

definition x360d_report_out_received :: "x360_app \<Rightarrow> nat \<Rightarrow> uint16_t \<Rightarrow> x360d_state \<Rightarrow> x360d_state" where
  "x360d_report_out_received app i xferred_bytes s =
     (let p_itf = instances s ! i;
          x360_message = transfer_out_buf p_itf
      in
      if sizeof_x360_message_rumble_t = unat xferred_bytes
         \<and> X360_MESSAGE_TYPE_OUT_RUMBLE = x360_message ! 0
      then
        (if x360d_received_rumble_cb app
         then invoke (X360d_received_rumble_cb (itf_num p_itf) (x360_message ! 3) (x360_message ! 4)) s
         else s)
      else if sizeof_x360_message_led_t = unat xferred_bytes
              \<and> X360_MESSAGE_TYPE_OUT_LED = x360_message ! 0
      then
        (let animation = x360_message ! 2 in
         if led p_itf = animation then s
         else
           let s = s\<lparr>instances := (instances s)[i := p_itf\<lparr>led := animation\<rparr>]\<rparr> in
           if x360d_received_led_cb app
           then invoke (X360d_received_led_cb (itf_num p_itf) animation) s
           else s)
      else s)"

definition x360d_xfer_cb ::
  "x360_app \<Rightarrow> uint8_t \<Rightarrow> uint8_t \<Rightarrow> xfer_result_t \<Rightarrow> uint32_t \<Rightarrow> x360d_state \<Rightarrow> bool \<times> x360d_state" where
  "x360d_xfer_cb app rhp ep_addr result xferred_bytes s =
     (case get_instance_by_ep (instances s) ep_addr of
        None \<Rightarrow> (False, s)
      | Some i \<Rightarrow>
          let p_itf = instances s ! i in
          if \<not> rhp = rhport p_itf then (False, s)
          else if XFER_RESULT_SUCCESS \<noteq> result then
            (if x360d_report_issue_cb app
             then (True, invoke (X360d_report_issue_cb (itf_num p_itf) ep_addr result xferred_bytes) s)
             else if ep_addr = ep_out p_itf
             then
               (case usbd_edpt_xfer (rhport p_itf) (ep_out p_itf) (Transfer_out_buf i)
                       (of_nat X360_TRANSFER_OUT_BUFFER_SIZE) s of
                  (False, s) \<Rightarrow> (False, s)
                | (True, s) \<Rightarrow> (True, s))
             else (True, s))
          else if ep_addr = ep_in p_itf then
            (if x360d_report_complete_cb app
             then (True, invoke (X360d_report_complete_cb (itf_num p_itf) (Transfer_in_buf i)
                                   (ucast xferred_bytes)) s)
             else (True, s))
          else if ep_addr = ep_out p_itf then
            (let s = x360d_report_out_received app i (ucast xferred_bytes) s in
             case usbd_edpt_xfer (rhport p_itf) (ep_out p_itf) (Transfer_out_buf i)
                    (of_nat X360_TRANSFER_OUT_BUFFER_SIZE) s of
               (False, s) \<Rightarrow> (False, s)
             | (True, s) \<Rightarrow> (True, s))
          else (True, s))"

text \<open>The synthesized capability messages: the initialisers of the locals \<open>rumble\<close> and
  \<open>controls\<close> of \<open>x360d_interface_request_handler\<close>.\<close>

definition rumble_capability_message :: "uint8_t list" where
  "rumble_capability_message =
     [X360_MESSAGE_TYPE_OUT_RUMBLE, of_nat sizeof_x360_message_rumble_t, 0]
     @ X360_RUMBLE_SUPPORT @ [0, 0, 0]"

definition controls_capability_message :: "uint8_t list" where
  "controls_capability_message =
     [X360_MESSAGE_TYPE_IN_INPUT, of_nat sizeof_x360_message_controls_t] @ X360_INPUT_SUPPORT"

definition x360d_interface_request_handler ::
  "nat \<Rightarrow> uint8_t \<Rightarrow> tusb_control_request \<Rightarrow> x360d_state \<Rightarrow> bool \<times> x360d_state" where
  "x360d_interface_request_handler i stage request s =
     (let p_itf = instances s ! i in
      if wValue request = X360_HANDLE_RUMBLE then
        (if \<not> CONTROL_STAGE_SETUP = stage then (True, s)
         else
           let len = sizeof_x360_message_rumble_t in
           if \<not> X360_TRANSFER_IN_BUFFER_SIZE \<ge> len then (False, s)
           else
             let buffer = memcpy (transfer_in_buf p_itf) 0 rumble_capability_message
                            sizeof_x360_message_rumble_t
             in tud_control_xfer (rhport p_itf) request (Transfer_in_buf i) (of_nat len)
                  (s\<lparr>instances := (instances s)[i := p_itf\<lparr>transfer_in_buf := buffer\<rparr>]\<rparr>))
      else if wValue request = X360_HANDLE_CONTROL then
        (if \<not> CONTROL_STAGE_SETUP = stage then (True, s)
         else
           let len = sizeof_x360_message_controls_t in
           if \<not> X360_TRANSFER_IN_BUFFER_SIZE \<ge> len then (False, s)
           else
             let buffer = memcpy (transfer_in_buf p_itf) 0 controls_capability_message
                            sizeof_x360_message_controls_t
             in tud_control_xfer (rhport p_itf) request (Transfer_in_buf i) (of_nat len)
                  (s\<lparr>instances := (instances s)[i := p_itf\<lparr>transfer_in_buf := buffer\<rparr>]\<rparr>))
      else (False, s))"

definition x360d_device_request_handler ::
  "nat \<Rightarrow> uint8_t \<Rightarrow> tusb_control_request \<Rightarrow> x360d_state \<Rightarrow> bool \<times> x360d_state" where
  "x360d_device_request_handler i stage request s =
     (let p_itf = instances s ! i in
      if wValue request = X360_HANDLE_SERIAL then
        (if \<not> CONTROL_STAGE_SETUP = stage then (True, s)
         else
           (case tu_memcpy_s (transfer_in_buf p_itf) X360_TRANSFER_IN_BUFFER_SIZE
                   X360_SERIAL_NUMBER (length X360_SERIAL_NUMBER - 1) of
              (rc, buffer) \<Rightarrow>
                if \<not> 0 = rc then (False, s)
                else tud_control_xfer (rhport p_itf) request (Transfer_in_buf i)
                       (of_nat (length X360_SERIAL_NUMBER - 1))
                       (s\<lparr>instances := (instances s)[i := p_itf\<lparr>transfer_in_buf := buffer\<rparr>]\<rparr>)))
      else (False, s))"

definition x360d_control_xfer_cb ::
  "uint8_t \<Rightarrow> uint8_t \<Rightarrow> tusb_control_request \<Rightarrow> x360d_state \<Rightarrow> bool \<times> x360d_state" where
  "x360d_control_xfer_cb rhp stage request s =
     (if \<not> TUSB_REQ_TYPE_VENDOR = bmRequestType_bit_type request then (False, s)
      else if \<not> 1 = bRequest request then (False, s)
      else
        (case get_instance_by_itf (instances s) (ucast (wIndex request)) of
           None \<Rightarrow> (False, s)
         | Some i \<Rightarrow>
             let p_itf = instances s ! i in
             if \<not> rhp = rhport p_itf then (False, s)
             else if \<not> ucast (itf_num p_itf) = wIndex request then (False, s)
             else if bmRequestType_bit_recipient request = TUSB_REQ_RCPT_INTERFACE
             then x360d_interface_request_handler i stage request s
             else if bmRequestType_bit_recipient request = TUSB_REQ_RCPT_DEVICE
             then x360d_device_request_handler i stage request s
             else (False, s)))"

subsection \<open>MS OS 1.0 responder (custom\_driver.c)\<close>

definition ms_os_control_xfer_cb ::
  "x360_app \<Rightarrow> uint8_t \<Rightarrow> uint8_t \<Rightarrow> tusb_control_request \<Rightarrow> x360d_state \<Rightarrow> bool \<times> x360d_state" where
  "ms_os_control_xfer_cb app rhp stage request s =
     (if \<not> TUSB_REQ_TYPE_VENDOR = bmRequestType_bit_type request then (False, s)
      else if \<not> MS_OS_DESCRIPTOR_VENDORCODE = bRequest request then (False, s)
      else if wIndex request = MS_EXTENDED_COMPATID_DESCRIPTOR then
        (case tud_descriptor_ms_compatid_cb app of
           Some (buffer, len) \<Rightarrow>
             if \<not> CONTROL_STAGE_SETUP = stage then (True, s)
             else tud_control_xfer rhp request (App_buffer buffer) len s
         | None \<Rightarrow> (False, s))
      else if wIndex request = MS_EXTENDED_PROPERTIES_DESCRIPTOR then
        (case tud_descriptor_ms_property_cb app of
           Some (buffer, len) \<Rightarrow>
             if \<not> CONTROL_STAGE_SETUP = stage then (True, s)
             else tud_control_xfer rhp request (App_buffer buffer) len s
         | None \<Rightarrow> (False, s))
      else (False, s))"

definition tud_vendor_control_xfer_cb ::
  "x360_app \<Rightarrow> uint8_t \<Rightarrow> uint8_t \<Rightarrow> tusb_control_request \<Rightarrow> x360d_state \<Rightarrow> bool \<times> x360d_state" where
  "tud_vendor_control_xfer_cb app rhp stage request s =
     (case x360d_control_xfer_cb rhp stage request s of
        (True, s) \<Rightarrow> (True, s)
      | (False, s) \<Rightarrow>
          (case ms_os_control_xfer_cb app rhp stage request s of
             (True, s) \<Rightarrow> (True, s)
           | (False, s) \<Rightarrow> (False, s)))"

section \<open>Custom HID class driver\<close>

subsection \<open>Constants (class/hid/hid.h)\<close>

text \<open>Modelled from the spec: the HID constants (\<open>class/hid/hid.h\<close> is not among the
  sources). The spec gives the interface class \<open>0x03\<close>, the descriptor types \<open>0x21\<close>,
  \<open>0x22\<close>, \<open>0x23\<close>, the six class request codes and the protocol modes Boot = 0 and
  Report = 1; \<open>GET_DESCRIPTOR\<close> is request 6 and an output report is type 2 in USB HID.
  The HID sub-descriptor struct has 9 bytes.
\<close>

definition TUSB_CLASS_HID :: uint8_t where "TUSB_CLASS_HID = 0x03"
definition TUSB_REQ_GET_DESCRIPTOR :: uint8_t where "TUSB_REQ_GET_DESCRIPTOR = 6"

definition HID_DESC_TYPE_HID :: uint8_t where "HID_DESC_TYPE_HID = 0x21"
definition HID_DESC_TYPE_REPORT :: uint8_t where "HID_DESC_TYPE_REPORT = 0x22"
definition HID_DESC_TYPE_PHYSICAL :: uint8_t where "HID_DESC_TYPE_PHYSICAL = 0x23"

definition HID_REQ_CONTROL_GET_REPORT :: uint8_t where "HID_REQ_CONTROL_GET_REPORT = 0x01"
definition HID_REQ_CONTROL_GET_IDLE :: uint8_t where "HID_REQ_CONTROL_GET_IDLE = 0x02"
definition HID_REQ_CONTROL_GET_PROTOCOL :: uint8_t where "HID_REQ_CONTROL_GET_PROTOCOL = 0x03"
definition HID_REQ_CONTROL_SET_REPORT :: uint8_t where "HID_REQ_CONTROL_SET_REPORT = 0x09"
definition HID_REQ_CONTROL_SET_IDLE :: uint8_t where "HID_REQ_CONTROL_SET_IDLE = 0x0a"
definition HID_REQ_CONTROL_SET_PROTOCOL :: uint8_t where "HID_REQ_CONTROL_SET_PROTOCOL = 0x0b"

definition HID_PROTOCOL_BOOT :: uint8_t where "HID_PROTOCOL_BOOT = 0"
definition HID_PROTOCOL_REPORT :: uint8_t where "HID_PROTOCOL_REPORT = 1"
definition HID_REPORT_TYPE_OUTPUT :: uint8_t where "HID_REPORT_TYPE_OUTPUT = 2"

definition sizeof_tusb_hid_descriptor_hid_t :: nat where "sizeof_tusb_hid_descriptor_hid_t = 9"

subsection \<open>Instances, buffers, callbacks\<close>

text \<open>\<open>chidd_instance_t\<close>. Its transfer buffers belong to the application: the struct
  holds pointers, here named \<open>hid_transfer_in_buf\<close> and \<open>hid_transfer_out_buf\<close>.\<close>

record chidd_instance = instance_ids +
  hid_transfer_in_buf :: ptr
  hid_transfer_out_buf :: ptr
  transfer_out_size :: uint16_t
  protocol_mode :: uint8_t
  idle_rate :: uint8_t
  hid_descriptor :: ptr

text \<open>A buffer handed to the stack: memory at an address, the \<open>idle_rate\<close> or
  \<open>protocol_mode\<close> field of instance \<open>i\<close>, or the local that holds a duration.\<close>

datatype chidd_buffer = Mem ptr | Idle_rate_of nat | Protocol_mode_of nat | Local_byte uint8_t

datatype chidd_callback =
  Chidd_out_endpoint_opened_cb uint8_t
  | Chidd_descriptor_report_cb uint8_t
  | Chidd_descriptor_physical_cb uint8_t uint8_t
  | Chidd_get_report_cb uint8_t uint8_t uint8_t
  | Chidd_set_report_cb uint8_t uint8_t uint8_t
  | Chidd_get_idle_cb uint8_t uint8_t
  | Chidd_set_idle_cb uint8_t uint8_t uint8_t
  | Chidd_set_protocol_cb uint8_t uint8_t
  | Chidd_report_sent_complete_cb uint8_t ptr uint32_t
  | Chidd_report_received_complete_cb uint8_t uint8_t uint8_t ptr uint32_t
  | Chidd_report_issue_cb uint8_t uint8_t xfer_result_t uint32_t

text \<open>The application's callbacks. A weak one may be absent (\<open>None\<close>, or \<open>False\<close> when it
  returns nothing). One that returns a buffer also yields the length it wrote through its
  last parameter; \<open>chidd_set_report_cb\<close> is given the instance's current
  \<open>transfer_out_size\<close> to write to.\<close>

record chidd_app =
  chidd_out_endpoint_opened_cb :: bool
  chidd_descriptor_report_cb :: "uint8_t \<Rightarrow> ptr \<times> uint16_t"
  chidd_descriptor_physical_cb :: "(uint8_t \<Rightarrow> uint8_t \<Rightarrow> ptr \<times> uint16_t) option"
  chidd_get_report_cb :: "uint8_t \<Rightarrow> uint8_t \<Rightarrow> uint8_t \<Rightarrow> ptr \<times> uint16_t"
  chidd_set_report_cb :: "(uint8_t \<Rightarrow> uint8_t \<Rightarrow> uint8_t \<Rightarrow> uint16_t \<Rightarrow> ptr \<times> uint16_t) option"
  chidd_get_idle_cb :: "(uint8_t \<Rightarrow> uint8_t \<Rightarrow> bool \<times> uint8_t) option"
  chidd_set_idle_cb :: "(uint8_t \<Rightarrow> uint8_t \<Rightarrow> uint8_t \<Rightarrow> bool) option"
  chidd_set_protocol_cb :: "(uint8_t \<Rightarrow> uint8_t \<Rightarrow> bool) option"
  chidd_report_sent_complete_cb :: bool
  chidd_report_received_complete_cb :: bool
  chidd_report_issue_cb :: bool

type_synonym chidd_state = "(chidd_instance, (chidd_buffer, chidd_callback) usbd_call) usbd_state"

definition chidd_instance_zero :: chidd_instance where
  "chidd_instance_zero =
     \<lparr>rhport = 0, itf_num = 0, ep_in = 0, ep_out = 0,
      hid_transfer_in_buf = NULL, hid_transfer_out_buf = NULL, transfer_out_size = 0,
      protocol_mode = 0, idle_rate = 0, hid_descriptor = NULL\<rparr>"

subsection \<open>Application API\<close>

definition chidd_send_report :: "uint8_t \<Rightarrow> ptr \<Rightarrow> uint16_t \<Rightarrow> chidd_state \<Rightarrow> bool \<times> chidd_state" where
  "chidd_send_report n report len s =
     (case get_instance_by_itf (instances s) n of
        None \<Rightarrow> (False, s)
      | Some i \<Rightarrow>
          let p_itf = instances s ! i in
          (case usbd_edpt_claim (rhport p_itf) (ep_in p_itf) (ep_status s) of
             (False, st) \<Rightarrow> (False, s\<lparr>ep_status := st\<rparr>)
           | (True, st) \<Rightarrow>
               let p_itf = p_itf\<lparr>hid_transfer_in_buf := report\<rparr>;
                   s = s\<lparr>instances := (instances s)[i := p_itf], ep_status := st\<rparr>
               in
               if \<not> (NULL \<noteq> report \<and> len \<noteq> 0) then (False, s)
               else usbd_edpt_xfer (rhport p_itf) (ep_in p_itf) (Mem (hid_transfer_in_buf p_itf)) len s))"

definition chidd_receive_report :: "uint8_t \<Rightarrow> ptr \<Rightarrow> uint16_t \<Rightarrow> chidd_state \<Rightarrow> bool \<times> chidd_state" where
  "chidd_receive_report n report len s =
     (case get_instance_by_itf (instances s) n of
        None \<Rightarrow> (False, s)
      | Some i \<Rightarrow>
          let p_itf = instances s ! i in
          if \<not> (NULL \<noteq> report \<and> 0 < len) then (False, s)
          else
            let p_itf = p_itf\<lparr>hid_transfer_out_buf := report, transfer_out_size := len\<rparr>;
                s = s\<lparr>instances := (instances s)[i := p_itf]\<rparr>
            in usbd_edpt_xfer (rhport p_itf) (ep_out p_itf) (Mem (hid_transfer_out_buf p_itf))
                 (transfer_out_size p_itf) s)"

text \<open>\<open>chidd_get_protocol\<close>: the second component is what is written to \<open>*mode\<close>.\<close>

definition chidd_get_protocol :: "uint8_t \<Rightarrow> ptr \<Rightarrow> chidd_state \<Rightarrow> bool \<times> uint8_t option" where
  "chidd_get_protocol n mode s =
     (case get_instance_by_itf (instances s) n of
        None \<Rightarrow> (False, None)
      | Some i \<Rightarrow>
          if \<not> NULL \<noteq> mode then (False, None)
          else (True, Some (protocol_mode (instances s ! i))))"

subsection \<open>Class driver API\<close>

definition chidd_reset :: "uint8_t \<Rightarrow> chidd_state \<Rightarrow> chidd_state" where
  "chidd_reset rhp s = s\<lparr>instances := map (\<lambda>_. chidd_instance_zero) (instances s)\<rparr>"

definition chidd_init :: "chidd_state \<Rightarrow> chidd_state" where
  "chidd_init s = chidd_reset 0 s"

definition chidd_open ::
  "chidd_app \<Rightarrow> memory \<Rightarrow> uint8_t \<Rightarrow> ptr \<Rightarrow> uint16_t \<Rightarrow> chidd_state \<Rightarrow> uint16_t \<times> chidd_state" where
  "chidd_open app mem rhp desc_itf max_len s =
     (if \<not> TUSB_CLASS_HID = bInterfaceClass mem desc_itf then (0, s)
      else
        let drv_len = (of_nat (sizeof_tusb_desc_interface_t + sizeof_tusb_hid_descriptor_hid_t
                         + unat (bNumEndpoints mem desc_itf) * sizeof_tusb_desc_endpoint_t) :: uint16_t)
        in
        if \<not> max_len \<ge> drv_len then (0, s)
        else
          (case get_free_instance (instances s) of
             None \<Rightarrow> (0, s)
           | Some i \<Rightarrow>
               let p_itf = instances s ! i;
                   p_desc = tu_desc_next mem desc_itf
               in
               if \<not> HID_DESC_TYPE_HID = tu_desc_type mem p_desc then (0, s)
               else
                 let p_itf = p_itf\<lparr>hid_descriptor := p_desc\<rparr>;
                     p_desc = tu_desc_next mem p_desc
                 in
                 (case usbd_open_edpt_pair mem p_desc (unat (bNumEndpoints mem desc_itf))
                         TUSB_XFER_INTERRUPT (ep_out p_itf) (ep_in p_itf) of
                    (False, e_out, e_in) \<Rightarrow>
                      (0, s\<lparr>instances := (instances s)[i := p_itf\<lparr>ep_in := e_in, ep_out := e_out\<rparr>]\<rparr>)
                  | (True, e_out, e_in) \<Rightarrow>
                      let p_itf = p_itf\<lparr>ep_in := e_in, ep_out := e_out,
                                         itf_num := bInterfaceNumber mem desc_itf, rhport := rhp,
                                         protocol_mode := HID_PROTOCOL_REPORT\<rparr>;
                          s = s\<lparr>instances := (instances s)[i := p_itf]\<rparr>
                      in
                      if ep_out p_itf \<noteq> 0 \<and> chidd_out_endpoint_opened_cb app
                      then (drv_len, invoke (Chidd_out_endpoint_opened_cb (itf_num p_itf)) s)
                      else (drv_len, s))))"

definition chidd_standard_request_handler ::
  "chidd_app \<Rightarrow> memory \<Rightarrow> nat \<Rightarrow> uint8_t \<Rightarrow> tusb_control_request \<Rightarrow> chidd_state \<Rightarrow> bool \<times> chidd_state" where
  "chidd_standard_request_handler app mem i stage request s =
     (let p_itf = instances s ! i in
      if \<not> TUSB_REQ_GET_DESCRIPTOR = bRequest request then (False, s)
      else if tu_u16_high (wValue request) = HID_DESC_TYPE_HID then
        (if \<not> CONTROL_STAGE_SETUP = stage then (True, s)
         else if hid_descriptor p_itf = NULL then (False, s)
         else
           (case tud_control_xfer (rhport p_itf) request (Mem (hid_descriptor p_itf))
                   (ucast (mem (hid_descriptor p_itf))) s of
              (False, s) \<Rightarrow> (False, s)
            | (True, s) \<Rightarrow> (True, s)))
      else if tu_u16_high (wValue request) = HID_DESC_TYPE_REPORT then
        (if \<not> CONTROL_STAGE_SETUP = stage then (True, s)
         else
           (case chidd_descriptor_report_cb app (itf_num p_itf) of
              (buffer, len) \<Rightarrow>
                let s = invoke (Chidd_descriptor_report_cb (itf_num p_itf)) s in
                if \<not> (NULL \<noteq> buffer \<and> 0 < len) then (False, s)
                else (True, snd (tud_control_xfer (rhport p_itf) request (Mem buffer) len s))))
      else if tu_u16_high (wValue request) = HID_DESC_TYPE_PHYSICAL then
        (if \<not> CONTROL_STAGE_SETUP = stage then (True, s)
         else
           (case chidd_descriptor_physical_cb app of
              None \<Rightarrow> (False, s)
            | Some cb \<Rightarrow>
                (case cb (itf_num p_itf) (tu_u16_low (wValue request)) of
                   (buffer, len) \<Rightarrow>
                     let s = invoke (Chidd_descriptor_physical_cb (itf_num p_itf)
                                       (tu_u16_low (wValue request))) s in
                     if \<not> (NULL \<noteq> buffer \<and> 0 < len) then (False, s)
                     else (True, snd (tud_control_xfer (rhport p_itf) request (Mem buffer) len s)))))
      else (False, s))"

definition chidd_class_specific_request_handler ::
  "chidd_app \<Rightarrow> nat \<Rightarrow> uint8_t \<Rightarrow> tusb_control_request \<Rightarrow> chidd_state \<Rightarrow> bool \<times> chidd_state" where
  "chidd_class_specific_request_handler app i stage request s =
     (let p_itf = instances s ! i;
          report_id = tu_u16_low (wValue request);
          high = tu_u16_high (wValue request)
      in
      if bRequest request = HID_REQ_CONTROL_GET_REPORT then
        (if \<not> 1 = bmRequestType_bit_direction request then (False, s)
         else if \<not> CONTROL_STAGE_SETUP = stage then (True, s)
         else
           (case chidd_get_report_cb app (itf_num p_itf) report_id high of
              (buffer, len) \<Rightarrow>
                let s = invoke (Chidd_get_report_cb (itf_num p_itf) report_id high) s;
                    p_itf = p_itf\<lparr>hid_transfer_in_buf := buffer\<rparr>;
                    s = s\<lparr>instances := (instances s)[i := p_itf]\<rparr>
                in
                if \<not> (NULL \<noteq> hid_transfer_in_buf p_itf \<and> 0 < len) then (False, s)
                else (True, snd (tud_control_xfer (rhport p_itf) request
                                   (Mem (hid_transfer_in_buf p_itf)) len s))))
      else if bRequest request = HID_REQ_CONTROL_SET_REPORT then
        (if \<not> 0 = bmRequestType_bit_direction request then (False, s)
         else if CONTROL_STAGE_SETUP = stage then
           (case chidd_set_report_cb app of
              None \<Rightarrow> (False, s)
            | Some cb \<Rightarrow>
                (case cb (itf_num p_itf) report_id high (transfer_out_size p_itf) of
                   (buffer, bufsize) \<Rightarrow>
                     let s = invoke (Chidd_set_report_cb (itf_num p_itf) report_id high) s;
                         p_itf = p_itf\<lparr>hid_transfer_out_buf := buffer, transfer_out_size := bufsize\<rparr>;
                         s = s\<lparr>instances := (instances s)[i := p_itf]\<rparr>
                     in
                     if \<not> (NULL \<noteq> hid_transfer_out_buf p_itf \<and> 0 < transfer_out_size p_itf)
                     then (False, s)
                     else (True, snd (tud_control_xfer (rhport p_itf) request
                                        (Mem (hid_transfer_out_buf p_itf)) (transfer_out_size p_itf) s))))
         else if CONTROL_STAGE_ACK = stage then
           (if \<not> chidd_report_received_complete_cb app then (True, s)
            else (True, invoke (Chidd_report_received_complete_cb (itf_num p_itf) report_id high
                                  (hid_transfer_out_buf p_itf) (ucast (wLength request))) s))
         else (True, s))
      else if bRequest request = HID_REQ_CONTROL_GET_IDLE then
        (if \<not> 1 = bmRequestType_bit_direction request then (False, s)
         else if \<not> CONTROL_STAGE_SETUP = stage then (True, s)
         else if 0 = report_id then
           (True, snd (tud_control_xfer (rhport p_itf) request (Idle_rate_of i) 1 s))
         else
           (case chidd_get_idle_cb app of
              None \<Rightarrow> (False, s)
            | Some cb \<Rightarrow>
                (case cb (itf_num p_itf) report_id of
                   (ok, duration) \<Rightarrow>
                     let s = invoke (Chidd_get_idle_cb (itf_num p_itf) report_id) s in
                     if \<not> ok then (False, s)
                     else (True, snd (tud_control_xfer (rhport p_itf) request
                                        (Local_byte duration) 1 s)))))
      else if bRequest request = HID_REQ_CONTROL_SET_IDLE then
        (if \<not> 0 = bmRequestType_bit_direction request then (False, s)
         else if \<not> CONTROL_STAGE_SETUP = stage then (True, s)
         else
           let s = snd (tud_control_status (rhport p_itf) request s);
               p_itf = (if 0 = report_id then p_itf\<lparr>idle_rate := high\<rparr> else p_itf);
               s = s\<lparr>instances := (instances s)[i := p_itf]\<rparr>
           in
           (case chidd_set_idle_cb app of
              None \<Rightarrow> (False, s)
            | Some cb \<Rightarrow>
                let s = invoke (Chidd_set_idle_cb (itf_num p_itf) report_id high) s in
                if \<not> cb (itf_num p_itf) report_id high then (False, s) else (True, s)))
      else if bRequest request = HID_REQ_CONTROL_GET_PROTOCOL then
        (if \<not> 1 = bmRequestType_bit_direction request then (False, s)
         else if \<not> CONTROL_STAGE_SETUP = stage then (True, s)
         else (True, snd (tud_control_xfer (rhport p_itf) request (Protocol_mode_of i) 1 s)))
      else if bRequest request = HID_REQ_CONTROL_SET_PROTOCOL then
        (if \<not> 0 = bmRequestType_bit_direction request then (False, s)
         else if \<not> CONTROL_STAGE_SETUP = stage then (True, s)
         else
           let s = snd (tud_control_status (rhport p_itf) request s);
               p_itf = p_itf\<lparr>protocol_mode := report_id\<rparr>;
               s = s\<lparr>instances := (instances s)[i := p_itf]\<rparr>
           in
           (case chidd_set_protocol_cb app of
              None \<Rightarrow> (False, s)
            | Some cb \<Rightarrow>
                let s = invoke (Chidd_set_protocol_cb (itf_num p_itf) (ucast (wValue request))) s in
                if \<not> cb (itf_num p_itf) (ucast (wValue request)) then (False, s) else (True, s)))
      else (False, s))"

definition chidd_control_xfer_cb ::
  "chidd_app \<Rightarrow> memory \<Rightarrow> uint8_t \<Rightarrow> uint8_t \<Rightarrow> tusb_control_request \<Rightarrow> chidd_state \<Rightarrow> bool \<times> chidd_state" where
  "chidd_control_xfer_cb app mem rhp stage request s =
     (if \<not> TUSB_REQ_RCPT_INTERFACE = bmRequestType_bit_recipient request then (False, s)
      else
        (case get_instance_by_itf (instances s) (ucast (wIndex request)) of
           None \<Rightarrow> (False, s)
         | Some i \<Rightarrow>
             let p_itf = instances s ! i in
             if \<not> rhp = rhport p_itf then (False, s)
             else if \<not> ucast (itf_num p_itf) = wIndex request then (False, s)
             else if bmRequestType_bit_type request = TUSB_REQ_TYPE_STANDARD
             then chidd_standard_request_handler app mem i stage request s
             else if bmRequestType_bit_type request = TUSB_REQ_TYPE_CLASS
             then chidd_class_specific_request_handler app i stage request s
             else (False, s)))"

definition chidd_xfer_cb ::
  "chidd_app \<Rightarrow> uint8_t \<Rightarrow> uint8_t \<Rightarrow> xfer_result_t \<Rightarrow> uint32_t \<Rightarrow> chidd_state \<Rightarrow> bool \<times> chidd_state" where
  "chidd_xfer_cb app rhp ep_addr result xferred_bytes s =
     (case get_instance_by_ep (instances s) ep_addr of
        None \<Rightarrow> (False, s)
      | Some i \<Rightarrow>
          let p_itf = instances s ! i in
          if \<not> rhp = rhport p_itf then (False, s)
          else if XFER_RESULT_SUCCESS \<noteq> result then
            (if chidd_report_issue_cb app
             then (True, invoke (Chidd_report_issue_cb (itf_num p_itf) ep_addr result xferred_bytes) s)
             else if ep_addr = ep_out p_itf
             then
               (case usbd_edpt_xfer (rhport p_itf) (ep_out p_itf) (Mem (hid_transfer_out_buf p_itf))
                       (transfer_out_size p_itf) s of
                  (False, s) \<Rightarrow> (False, s)
                | (True, s) \<Rightarrow> (True, s))
             else (True, s))
          else if ep_addr = ep_in p_itf then
            (if chidd_report_sent_complete_cb app
             then (True, invoke (Chidd_report_sent_complete_cb (itf_num p_itf)
                                   (hid_transfer_in_buf p_itf) xferred_bytes) s)
             else (True, s))
          else if ep_addr = ep_out p_itf then
            (let buffer = hid_transfer_out_buf p_itf;
                 p_itf = p_itf\<lparr>hid_transfer_out_buf := 0, transfer_out_size := 0\<rparr>;
                 s = s\<lparr>instances := (instances s)[i := p_itf]\<rparr>
             in
             if chidd_report_received_complete_cb app
             then (True, invoke (Chidd_report_received_complete_cb (itf_num p_itf) 0xFF
                                   HID_REPORT_TYPE_OUTPUT buffer xferred_bytes) s)
             else (True, s))
          else (True, s))"

section \<open>The environment and sample states\<close>

text \<open>The controller stores the bytes of a received OUT message at the start of the armed
  OUT buffer of instance \<open>i\<close> before the stack reports the transfer complete.\<close>

definition receive_out :: "nat \<Rightarrow> uint8_t list \<Rightarrow> x360d_state \<Rightarrow> x360d_state" where
  "receive_out i message s =
     s\<lparr>instances := (instances s)
          [i := (instances s ! i)\<lparr>transfer_out_buf :=
                  memcpy (transfer_out_buf (instances s ! i)) 0 message (length message)\<rparr>]\<rparr>"


fun is_received_rumble :: "(x360_buffer, x360_callback) usbd_call \<Rightarrow> bool" where
  "is_received_rumble (App_callback (X360d_received_rumble_cb n l r)) = True"
| "is_received_rumble c = False"


text \<open>The calls a step added to the trace.\<close>

definition new_calls :: "('i, 'e) usbd_state \<Rightarrow> ('i, 'e) usbd_state \<Rightarrow> 'e list" where
  "new_calls s s' = drop (length (calls s)) (calls s')"

text \<open>All endpoints idle; memory holding a byte string from address 0.\<close>

definition idle_endpoints :: usbd_ep_status where
  "idle_endpoints = (\<lambda>_. \<lparr>busy = False, claimed = False\<rparr>)"

definition memory_of :: "uint8_t list \<Rightarrow> memory" where
  "memory_of bytes = (\<lambda>a. if a < length bytes then bytes ! a else 0)"

text \<open>The gamepad example: its configuration descriptor (the interface descriptor is at
  offset 9), one instance slot, and the state after the interface was bound by hand
  (interface 0, endpoints \<open>0x81\<close> and \<open>0x01\<close>).\<close>

definition x360_desc_configuration :: "uint8_t list" where
  "x360_desc_configuration =
     [0x09, 0x02, 0x31, 0x00, 0x01, 0x01, 0x00, 0xA0, 0x64,
      0x09, 0x04, 0x00, 0x00, 0x02, 0xFF, 0x5D, 0x01, 0x00,
      0x11, 0x21, 0x00, 0x01, 0x01, 0x25, 0x81, 0x14, 0x00, 0x00, 0x00, 0x00,
      0x13, 0x01, 0x08, 0x00, 0x00,
      0x07, 0x05, 0x81, 0x03, 0x20, 0x00, 0x04,
      0x07, 0x05, 0x01, 0x03, 0x20, 0x00, 0x08]"

definition x360_unbound_state :: x360d_state where
  "x360_unbound_state =
     \<lparr>instances = [x360d_instance_zero], ep_status = idle_endpoints, calls = []\<rparr>"

definition x360_bound_instance :: x360d_instance where
  "x360_bound_instance =
     \<lparr>rhport = 0, itf_num = 0, ep_in = 0x81, ep_out = 0x01,
      transfer_in_buf = [0, 0, 0, 0, 0, 0, 0, 0, 0, 0, 0, 0, 0, 0, 0, 0, 0, 0, 0, 0],
      transfer_out_buf = [0, 0, 0, 0, 0, 0, 0, 0], led = 0\<rparr>"

definition x360_bound_state :: x360d_state where
  "x360_bound_state =
     \<lparr>instances = [x360_bound_instance], ep_status = idle_endpoints, calls = []\<rparr>"

text \<open>An application that defines every X360 callback and both MS OS providers, and one that
  defines none.\<close>

definition x360_app_full :: x360_app where
  "x360_app_full =
     \<lparr>x360d_report_issue_cb = True, x360d_report_complete_cb = True,
      x360d_received_led_cb = True, x360d_received_rumble_cb = True,
      tud_descriptor_ms_compatid_cb = Some (1000, 40),
      tud_descriptor_ms_property_cb = Some (2000, 142)\<rparr>"

definition x360_app_none :: x360_app where
  "x360_app_none =
     \<lparr>x360d_report_issue_cb = False, x360d_report_complete_cb = False,
      x360d_received_led_cb = False, x360d_received_rumble_cb = False,
      tud_descriptor_ms_compatid_cb = None,
      tud_descriptor_ms_property_cb = None\<rparr>"

text \<open>The report of the spec's button-press scenario: only button A (bit 12) set.\<close>

definition controls_button_A :: x360_controls_t where
  "controls_button_A = [0x00, 0x10, 0, 0, 0, 0, 0, 0, 0, 0, 0, 0, 0, 0, 0, 0, 0, 0]"

text \<open>The HID example: a keyboard interface block (interface, HID sub-descriptor, two
  interrupt endpoints) at address 0, and a bound instance.\<close>

definition hid_desc_interface :: "uint8_t list" where
  "hid_desc_interface =
     [0x09, 0x04, 0x00, 0x00, 0x02, 0x03, 0x01, 0x01, 0x00,
      0x09, 0x21, 0x11, 0x01, 0x00, 0x01, 0x22, 0x45, 0x00,
      0x07, 0x05, 0x81, 0x03, 0x08, 0x00, 0x04,
      0x07, 0x05, 0x01, 0x03, 0x01, 0x00, 0x04]"

definition chidd_unbound_state :: chidd_state where
  "chidd_unbound_state =
     \<lparr>instances = [chidd_instance_zero], ep_status = idle_endpoints, calls = []\<rparr>"

definition chidd_bound_instance :: chidd_instance where
  "chidd_bound_instance =
     \<lparr>rhport = 0, itf_num = 0, ep_in = 0x81, ep_out = 0x01,
      hid_transfer_in_buf = NULL, hid_transfer_out_buf = NULL, transfer_out_size = 0,
      protocol_mode = 1, idle_rate = 0, hid_descriptor = 9\<rparr>"

definition chidd_bound_state :: chidd_state where
  "chidd_bound_state =
     \<lparr>instances = [chidd_bound_instance], ep_status = idle_endpoints, calls = []\<rparr>"

text \<open>An application with only the two mandatory HID callbacks (both return no buffer),
  and one that also accepts every idle rate and protocol.\<close>

definition chidd_app_minimal :: chidd_app where
  "chidd_app_minimal =
     \<lparr>chidd_out_endpoint_opened_cb = False,
      chidd_descriptor_report_cb = (\<lambda>_. (NULL, 0)),
      chidd_descriptor_physical_cb = None,
      chidd_get_report_cb = (\<lambda>_ _ _. (NULL, 0)),
      chidd_set_report_cb = None,
      chidd_get_idle_cb = None,
      chidd_set_idle_cb = None,
      chidd_set_protocol_cb = None,
      chidd_report_sent_complete_cb = False,
      chidd_report_received_complete_cb = False,
      chidd_report_issue_cb = False\<rparr>"

definition chidd_app_delegating :: chidd_app where
  "chidd_app_delegating =
     chidd_app_minimal\<lparr>chidd_set_idle_cb := Some (\<lambda>_ _ _. True),
                        chidd_set_protocol_cb := Some (\<lambda>_ _. True)\<rparr>"

text \<open>Requests of the spec's scenarios: the two X360 vendor requests with \<open>wValue = 0\<close>,
  the MS OS compat-ID request, \<open>SET_IDLE\<close>, \<open>SET_PROTOCOL(Boot)\<close> and \<open>GET_PROTOCOL\<close>.\<close>

definition request_x360_rumble :: tusb_control_request where
  "request_x360_rumble =
     \<lparr>bmRequestType = 0xC1, bRequest = 0x01, wValue = 0x0000, wIndex = 0, wLength = 8\<rparr>"

definition request_x360_serial :: tusb_control_request where
  "request_x360_serial =
     \<lparr>bmRequestType = 0xC0, bRequest = 0x01, wValue = 0x0000, wIndex = 0, wLength = 3\<rparr>"

definition request_ms_compatid :: tusb_control_request where
  "request_ms_compatid =
     \<lparr>bmRequestType = 0xC0, bRequest = 0x42, wValue = 0x0000, wIndex = 0x04, wLength = 40\<rparr>"

definition request_set_idle :: "uint16_t \<Rightarrow> tusb_control_request" where
  "request_set_idle v =
     \<lparr>bmRequestType = 0x21, bRequest = 0x0A, wValue = v, wIndex = 0, wLength = 0\<rparr>"

definition request_set_protocol :: "uint16_t \<Rightarrow> tusb_control_request" where
  "request_set_protocol v =
     \<lparr>bmRequestType = 0x21, bRequest = 0x0B, wValue = v, wIndex = 0, wLength = 0\<rparr>"

definition request_get_protocol :: tusb_control_request where
  "request_get_protocol =
     \<lparr>bmRequestType = 0xA1, bRequest = 0x03, wValue = 0, wIndex = 0, wLength = 1\<rparr>"

text \<open>The host sends a message on the OUT endpoint of instance \<open>i\<close> and the stack reports
  the transfer complete with the message's length.\<close>

definition x360_out_message :: "x360_app \<Rightarrow> nat \<Rightarrow> uint8_t list \<Rightarrow> x360d_state \<Rightarrow> x360d_state" where
  "x360_out_message app i message s =
     snd (x360d_xfer_cb app (rhport (instances s ! i)) (ep_out (instances s ! i))
            XFER_RESULT_SUCCESS (of_nat (length message)) (receive_out i message s))"

text \<open>The byte a one-byte reply buffer of the HID driver holds in a given state; application
  memory is not modelled.\<close>

fun chidd_buffer_bytes :: "chidd_state \<Rightarrow> chidd_buffer \<Rightarrow> uint8_t list option" where
  "chidd_buffer_bytes s (Idle_rate_of i) = Some [idle_rate (instances s ! i)]"
| "chidd_buffer_bytes s (Protocol_mode_of i) = Some [protocol_mode (instances s ! i)]"
| "chidd_buffer_bytes s (Local_byte b) = Some [b]"
| "chidd_buffer_bytes s (Mem p) = None"

text \<open>Modelled from the spec: how the stack delivers a transfer-complete event and a bus
  reset to the HID driver (\<open>device/usbd.c\<close> is not among the sources). The spec: "The only
  asynchrony is the gap between enqueuing an endpoint transfer and the later
  transfer-complete callback", "At most one transfer is outstanding per (instance,
  direction) at any time", the endpoint claim "guaranteeing at-most-one outstanding
  transfer per endpoint", "Bus reset cancels all outstanding transfers (stack-level)" and
  "\<open>reset()\<close> invalidates all instances". In the model a completion is delivered only for
  an endpoint with a transfer outstanding; the stack then marks that endpoint idle
  (neither busy nor claimed) and calls \<open>chidd_xfer_cb\<close>. A bus reset marks every endpoint
  idle and calls \<open>chidd_reset\<close>.\<close>

definition usbd_xfer_complete ::
  "chidd_app \<Rightarrow> uint8_t \<Rightarrow> uint8_t \<Rightarrow> xfer_result_t \<Rightarrow> uint32_t \<Rightarrow> chidd_state \<Rightarrow> bool \<times> chidd_state" where
  "usbd_xfer_complete app rhp ep_addr result xferred_bytes s =
     (if \<not> busy (ep_status s ep_addr) then (False, s)
      else chidd_xfer_cb app rhp ep_addr result xferred_bytes
             (s\<lparr>ep_status := (ep_status s)(ep_addr := \<lparr>busy = False, claimed = False\<rparr>)\<rparr>))"

definition usbd_bus_reset :: "uint8_t \<Rightarrow> chidd_state \<Rightarrow> chidd_state" where
  "usbd_bus_reset rhp s =
     chidd_reset rhp (s\<lparr>ep_status := (\<lambda>_. \<lparr>busy = False, claimed = False\<rparr>)\<rparr>)"

text \<open>A run of the HID driver: the application sends or arms reports, the stack delivers
  control requests, transfer completions, interfaces to bind and bus resets, in any
  order.\<close>

datatype chidd_op =
  Send_report uint8_t ptr uint16_t
  | Receive_report uint8_t ptr uint16_t
  | Control_request uint8_t uint8_t tusb_control_request
  | Xfer_complete uint8_t uint8_t xfer_result_t uint32_t
  | Open_interface uint8_t ptr uint16_t
  | Bus_reset uint8_t

fun chidd_step :: "chidd_app \<Rightarrow> memory \<Rightarrow> chidd_op \<Rightarrow> chidd_state \<Rightarrow> bool \<times> chidd_state" where
  "chidd_step app mem (Send_report n report len) s = chidd_send_report n report len s"
| "chidd_step app mem (Receive_report n report len) s = chidd_receive_report n report len s"
| "chidd_step app mem (Control_request rhp stage request) s =
     chidd_control_xfer_cb app mem rhp stage request s"
| "chidd_step app mem (Xfer_complete rhp ep_addr result xferred_bytes) s =
     usbd_xfer_complete app rhp ep_addr result xferred_bytes s"
| "chidd_step app mem (Open_interface rhp desc_itf max_len) s =
     (case chidd_open app mem rhp desc_itf max_len s of (drv_len, s') \<Rightarrow> (drv_len \<noteq> 0, s'))"
| "chidd_step app mem (Bus_reset rhp) s = (True, usbd_bus_reset rhp s)"

fun chidd_run :: "chidd_app \<Rightarrow> memory \<Rightarrow> chidd_op list \<Rightarrow> chidd_state \<Rightarrow> chidd_state" where
  "chidd_run app mem [] s = s"
| "chidd_run app mem (c # cs) s = chidd_run app mem cs (snd (chidd_step app mem c s))"

fun is_bus_reset :: "chidd_op \<Rightarrow> bool" where
  "is_bus_reset (Bus_reset rhp) = True"
| "is_bus_reset c = False"

text \<open>Two properties of a state of the HID driver, used as invariants of a run. The
  instance array is well formed: every OUT address has the direction bit clear, every IN
  address is zero or has it set, and the slots in use come before the free ones. The IN
  endpoint of the instance bound to interface \<open>n\<close>, slot \<open>i\<close>, is held: it exists, is
  claimed, and no transfer is outstanding on it.\<close>

definition in_use :: "'a instance_ids_scheme \<Rightarrow> bool" where
  "in_use p = (ep_in p \<noteq> 0 \<or> ep_out p \<noteq> 0)"

definition chidd_well_formed :: "chidd_state \<Rightarrow> bool" where
  "chidd_well_formed t =
     ((\<forall>j < length (instances t).
          ep_out (instances t ! j) AND 0x80 = 0
          \<and> (ep_in (instances t ! j) = 0 \<or> ep_in (instances t ! j) AND 0x80 \<noteq> 0))
      \<and> (\<forall>j < length (instances t). \<forall>k < j.
            in_use (instances t ! j) \<longrightarrow> in_use (instances t ! k)))"

definition in_claim_held :: "uint8_t \<Rightarrow> nat \<Rightarrow> chidd_state \<Rightarrow> bool" where
  "in_claim_held n i t =
     (get_instance_by_itf (instances t) n = Some i
      \<and> ep_in (instances t ! i) \<noteq> 0
      \<and> claimed (ep_status t (ep_in (instances t ! i)))
      \<and> \<not> busy (ep_status t (ep_in (instances t ! i))))"

text \<open>The sample HID device after enumeration: the driver is reset and the stack offers
  it the sample interface, which it binds to slot 0.\<close>

definition chidd_enumerated_state :: chidd_state where
  "chidd_enumerated_state =
     chidd_run chidd_app_minimal (memory_of hid_desc_interface) [Open_interface 0 0 32]
       (chidd_reset 0 chidd_unbound_state)"

section \<open>Instance lookup\<close>

lemma get_instance_by_itf_from_Some:
  "get_instance_by_itf_from k xs n = Some i \<Longrightarrow>
     k \<le> i \<and> i - k < length xs \<and> itf_num (xs ! (i - k)) = n
     \<and> (ep_in (xs ! (i - k)) \<noteq> 0 \<or> ep_out (xs ! (i - k)) \<noteq> 0)"
proof (induction xs arbitrary: k)
  case Nil
  then show ?case by simp
next
  case (Cons x xs)
  show ?case
  proof (cases "n = itf_num x \<and> (0 \<noteq> ep_in x \<or> 0 \<noteq> ep_out x)")
    case True
    with Cons.prems have "i = k" by simp
    with True show ?thesis by auto
  next
    case False
    with Cons.prems have "get_instance_by_itf_from (Suc k) xs n = Some i" by auto
    from Cons.IH [OF this] have h: "Suc k \<le> i" "i - Suc k < length xs"
      "itf_num (xs ! (i - Suc k)) = n"
      "ep_in (xs ! (i - Suc k)) \<noteq> 0 \<or> ep_out (xs ! (i - Suc k)) \<noteq> 0" by auto
    from h(1) have e: "i - k = Suc (i - Suc k)" by arith
    from h e show ?thesis by auto
  qed
qed

lemma get_instance_by_itf_Some:
  "get_instance_by_itf xs n = Some i \<Longrightarrow>
     i < length xs \<and> itf_num (xs ! i) = n \<and> (ep_in (xs ! i) \<noteq> 0 \<or> ep_out (xs ! i) \<noteq> 0)"
  using get_instance_by_itf_from_Some [of 0 xs n i] by (simp add: get_instance_by_itf_def)

lemmas x360_sample_defs = x360_bound_state_def x360_bound_instance_def idle_endpoints_def
  controls_button_A_def get_instance_by_itf_def

section \<open>X360 input reports\<close>

text \<open>
  Claim C1. For a bound interface and any controls value (18 bytes), a call of
  \<open>x360d_n_report\<close> that returns true leaves in the instance's IN buffer exactly the header
  \<open>{0x00, 20}\<close> followed by the 18 control bytes, has enqueued one transfer of 20 bytes from
  that buffer on the instance's IN endpoint, and reading the controls member back from the
  20 bytes gives the controls that were passed in.
\<close>

theorem x360d_n_report_roundtrip:
  assumes bound: "get_instance_by_itf (instances s) n = Some i"
    and inbuf: "length (transfer_in_buf (instances s ! i)) = X360_TRANSFER_IN_BUFFER_SIZE"
    and rep: "length report = sizeof_x360_controls_t"
    and ok: "x360d_n_report n report s = (True, s')"
  shows "transfer_in_buf (instances s' ! i) = [0x00, 20] @ report
       \<and> new_calls s s' = [Usbd_edpt_xfer (rhport (instances s ! i)) (ep_in (instances s ! i))
                                 (Transfer_in_buf i) 20]
       \<and> x360_message_header_of (take 20 (transfer_in_buf (instances s' ! i))) = (0x00, 20)
       \<and> x360_controls_of (take 20 (transfer_in_buf (instances s' ! i))) = report"
proof -
  from get_instance_by_itf_Some [OF bound] have i: "i < length (instances s)" by simp
  obtain b0 b1 rest where buf: "transfer_in_buf (instances s ! i) = b0 # b1 # rest" "length rest = 18"
    using inbuf by (cases "transfer_in_buf (instances s ! i)"; simp add: X360_TRANSFER_IN_BUFFER_SIZE_def;
        (cases "tl (transfer_in_buf (instances s ! i))"; simp))
  from ok bound i buf rep show ?thesis
    by (auto simp: x360d_n_report_def Let_def usbd_edpt_claim_def usbd_edpt_xfer_def
        usbd_edpt_xfer_status_def memcpy_def X360_MESSAGE_TYPE_IN_INPUT_def new_calls_def
        sizeof_x360_message_controls_t_def sizeof_x360_controls_t_def
        X360_TRANSFER_IN_BUFFER_SIZE_def x360_message_header_of_def x360_controls_of_def
        split: if_splits prod.splits)
qed

text \<open>The button-press scenario: reporting button A on interface 0 puts
  \<open>00 14 00 10 00 \<dots> 00\<close> on endpoint \<open>0x81\<close>.\<close>

theorem x360d_n_report_roundtrip_witness:
  "fst (x360d_n_report 0 controls_button_A x360_bound_state)
   \<and> transfer_in_buf (instances (snd (x360d_n_report 0 controls_button_A x360_bound_state)) ! 0)
       = [0x00, 0x14, 0x00, 0x10, 0, 0, 0, 0, 0, 0, 0, 0, 0, 0, 0, 0, 0, 0, 0, 0]
   \<and> new_calls x360_bound_state (snd (x360d_n_report 0 controls_button_A x360_bound_state))
       = [Usbd_edpt_xfer 0 0x81 (Transfer_in_buf 0) 20]
   \<and> x360_controls_of (take 20 (transfer_in_buf
         (instances (snd (x360d_n_report 0 controls_button_A x360_bound_state)) ! 0)))
       = controls_button_A"
proof -
  have bound: "get_instance_by_itf (instances x360_bound_state) 0 = Some 0"
    by (simp add: x360_sample_defs)
  have inbuf: "length (transfer_in_buf (instances x360_bound_state ! 0)) = X360_TRANSFER_IN_BUFFER_SIZE"
    by (simp add: x360_sample_defs X360_TRANSFER_IN_BUFFER_SIZE_def)
  have rep: "length controls_button_A = sizeof_x360_controls_t"
    by (simp add: controls_button_A_def sizeof_x360_controls_t_def)
  have fst: "fst (x360d_n_report 0 controls_button_A x360_bound_state)"
    by (simp add: x360d_n_report_def x360_sample_defs usbd_edpt_claim_def Let_def
        usbd_edpt_xfer_def usbd_edpt_xfer_status_def sizeof_x360_message_controls_t_def
        X360_TRANSFER_IN_BUFFER_SIZE_def)
  then have ok: "x360d_n_report 0 controls_button_A x360_bound_state
      = (True, snd (x360d_n_report 0 controls_button_A x360_bound_state))"
    by (cases "x360d_n_report 0 controls_button_A x360_bound_state") simp
  have ids: "rhport (instances x360_bound_state ! 0) = 0" "ep_in (instances x360_bound_state ! 0) = 0x81"
    by (simp_all add: x360_sample_defs)
  have bytes: "[0x00, 20] @ controls_button_A
      = [0x00, 0x14, 0x00, 0x10, 0, 0, 0, 0, 0, 0, 0, 0, 0, 0, 0, 0, 0, 0, 0, 0]"
    by (simp add: controls_button_A_def)
  from x360d_n_report_roundtrip [OF bound inbuf rep ok] fst show ?thesis
    unfolding ids bytes
    by (simp add: x360_controls_of_def sizeof_x360_controls_t_def controls_button_A_def)
qed

section \<open>X360 vendor requests\<close>

lemma ucast_itf_roundtrip: "(ucast (ucast (n :: 8 word) :: 16 word) :: 8 word) = n"
  by (rule ucast_up_ucast_id) (simp add: is_up)

text \<open>
  Claim C2. A vendor request with \<open>bRequest = 0x01\<close> and \<open>wValue = 0x0000\<close>, addressed
  (by \<open>wIndex\<close>) to a bound X360 interface on its port, is dispatched on the recipient
  first. At the SETUP stage, recipient INTERFACE copies the synthesized 8-byte
  rumble-capability message into the IN buffer and replies with 8 bytes of it; recipient
  DEVICE copies the three bytes of the serial string \<open>"ABC"\<close>, without its NUL, and replies
  with 3 bytes. The same \<open>wValue\<close> selects two handlers by the recipient alone.
\<close>

theorem x360d_control_wValue_zero_by_recipient:
  assumes vendor: "bmRequestType_bit_type request = TUSB_REQ_TYPE_VENDOR"
    and breq: "bRequest request = 1"
    and wv: "wValue request = 0x0000"
    and bound: "get_instance_by_itf (instances s) n = Some i"
    and addressed: "wIndex request = ucast n"
    and port: "rhp = rhport (instances s ! i)"
  shows "(bmRequestType_bit_recipient request = TUSB_REQ_RCPT_INTERFACE \<longrightarrow>
            x360d_control_xfer_cb rhp CONTROL_STAGE_SETUP request s =
              (True, s\<lparr>instances := (instances s)
                           [i := (instances s ! i)\<lparr>transfer_in_buf :=
                              [0x00, 0x08, 0, 0, 0, 0, 0, 0] @ drop 8 (transfer_in_buf (instances s ! i))\<rparr>],
                        calls := calls s @ [Tud_control_xfer rhp request (Transfer_in_buf i) 8]\<rparr>))
       \<and> (bmRequestType_bit_recipient request = TUSB_REQ_RCPT_DEVICE \<longrightarrow>
            x360d_control_xfer_cb rhp CONTROL_STAGE_SETUP request s =
              (True, s\<lparr>instances := (instances s)
                           [i := (instances s ! i)\<lparr>transfer_in_buf :=
                              [0x41, 0x42, 0x43] @ drop 3 (transfer_in_buf (instances s ! i))\<rparr>],
                        calls := calls s @ [Tud_control_xfer rhp request (Transfer_in_buf i) 3]\<rparr>))"
proof -
  from get_instance_by_itf_Some [OF bound] have n: "itf_num (instances s ! i) = n" by simp
  have look: "get_instance_by_itf (instances s) (ucast (wIndex request)) = Some i"
    using bound addressed by (simp add: ucast_itf_roundtrip)
  have pre: "x360d_control_xfer_cb rhp CONTROL_STAGE_SETUP request s =
      (if bmRequestType_bit_recipient request = TUSB_REQ_RCPT_INTERFACE
       then x360d_interface_request_handler i CONTROL_STAGE_SETUP request s
       else if bmRequestType_bit_recipient request = TUSB_REQ_RCPT_DEVICE
       then x360d_device_request_handler i CONTROL_STAGE_SETUP request s
       else (False, s))"
    using vendor breq look n addressed port by (simp add: x360d_control_xfer_cb_def Let_def)
  have itf: "x360d_interface_request_handler i CONTROL_STAGE_SETUP request s =
      (True, s\<lparr>instances := (instances s)
                   [i := (instances s ! i)\<lparr>transfer_in_buf :=
                      [0x00, 0x08, 0, 0, 0, 0, 0, 0] @ drop 8 (transfer_in_buf (instances s ! i))\<rparr>],
                calls := calls s @ [Tud_control_xfer rhp request (Transfer_in_buf i) 8]\<rparr>)"
    using wv port
    by (simp add: x360d_interface_request_handler_def Let_def X360_HANDLE_RUMBLE_def
        sizeof_x360_message_rumble_t_def X360_TRANSFER_IN_BUFFER_SIZE_def memcpy_def
        rumble_capability_message_def X360_MESSAGE_TYPE_OUT_RUMBLE_def X360_RUMBLE_SUPPORT_def
        tud_control_xfer_def)
  have dev: "x360d_device_request_handler i CONTROL_STAGE_SETUP request s =
      (True, s\<lparr>instances := (instances s)
                   [i := (instances s ! i)\<lparr>transfer_in_buf :=
                      [0x41, 0x42, 0x43] @ drop 3 (transfer_in_buf (instances s ! i))\<rparr>],
                calls := calls s @ [Tud_control_xfer rhp request (Transfer_in_buf i) 3]\<rparr>)"
    using wv port
    by (simp add: x360d_device_request_handler_def Let_def X360_HANDLE_SERIAL_def
        tu_memcpy_s_def X360_SERIAL_NUMBER_def X360_TRANSFER_IN_BUFFER_SIZE_def memcpy_def
        tud_control_xfer_def numeral_3_eq_3)
  show ?thesis
    unfolding pre using itf dev
    by (simp add: TUSB_REQ_RCPT_INTERFACE_def TUSB_REQ_RCPT_DEVICE_def)
qed

text \<open>On the bound sample state, the two requests \<open>0xC1\<close> and \<open>0xC0\<close> with the same
  \<open>wValue\<close> get the rumble message and the serial bytes.\<close>

lemmas request_bits = bmRequestType_bit_type_def bmRequestType_bit_recipient_def
  bmRequestType_bit_direction_def

theorem x360d_control_wValue_zero_by_recipient_witness:
  "x360d_control_xfer_cb 0 CONTROL_STAGE_SETUP request_x360_rumble x360_bound_state =
     (True, x360_bound_state
        \<lparr>instances := [x360_bound_instance\<lparr>transfer_in_buf :=
            [0x00, 0x08, 0, 0, 0, 0, 0, 0, 0, 0, 0, 0, 0, 0, 0, 0, 0, 0, 0, 0]\<rparr>],
         calls := [Tud_control_xfer 0 request_x360_rumble (Transfer_in_buf 0) 8]\<rparr>)
   \<and> x360d_control_xfer_cb 0 CONTROL_STAGE_SETUP request_x360_serial x360_bound_state =
     (True, x360_bound_state
        \<lparr>instances := [x360_bound_instance\<lparr>transfer_in_buf :=
            [0x41, 0x42, 0x43, 0, 0, 0, 0, 0, 0, 0, 0, 0, 0, 0, 0, 0, 0, 0, 0, 0]\<rparr>],
         calls := [Tud_control_xfer 0 request_x360_serial (Transfer_in_buf 0) 3]\<rparr>)"
proof -
  have bound: "get_instance_by_itf (instances x360_bound_state) 0 = Some 0"
    by (simp add: x360_sample_defs)
  have port: "0 = rhport (instances x360_bound_state ! 0)"
    by (simp add: x360_sample_defs)
  have r: "bmRequestType_bit_type request_x360_rumble = TUSB_REQ_TYPE_VENDOR"
    "bRequest request_x360_rumble = 1" "wValue request_x360_rumble = 0x0000"
    "wIndex request_x360_rumble = ucast (0 :: uint8_t)"
    "bmRequestType_bit_recipient request_x360_rumble = TUSB_REQ_RCPT_INTERFACE"
    by (simp_all add: request_bits request_x360_rumble_def TUSB_REQ_TYPE_VENDOR_def
        TUSB_REQ_RCPT_INTERFACE_def)
  have d: "bmRequestType_bit_type request_x360_serial = TUSB_REQ_TYPE_VENDOR"
    "bRequest request_x360_serial = 1" "wValue request_x360_serial = 0x0000"
    "wIndex request_x360_serial = ucast (0 :: uint8_t)"
    "bmRequestType_bit_recipient request_x360_serial = TUSB_REQ_RCPT_DEVICE"
    by (simp_all add: request_bits request_x360_serial_def TUSB_REQ_TYPE_VENDOR_def
        TUSB_REQ_RCPT_DEVICE_def)
  have st: "instances x360_bound_state = [x360_bound_instance]" "calls x360_bound_state = []"
    "transfer_in_buf x360_bound_instance = [0, 0, 0, 0, 0, 0, 0, 0, 0, 0, 0, 0, 0, 0, 0, 0, 0, 0, 0, 0]"
    by (simp_all add: x360_bound_state_def x360_bound_instance_def)
  from x360d_control_wValue_zero_by_recipient [OF r(1-3) bound r(4) port]
    x360d_control_wValue_zero_by_recipient [OF d(1-3) bound d(4) port]
  show ?thesis
    by (simp add: r(5) d(5) st)
qed

section \<open>X360 OUT messages\<close>

lemma unat_eq_8: "(8 = unat (w :: 16 word)) = (w = 8)"
proof
  assume "8 = unat w"
  then have "of_nat (unat w) = (of_nat 8 :: 16 word)" by simp
  then show "w = 8" by simp
next
  assume "w = 8"
  then show "8 = unat w" by simp
qed

lemma unat_eq_3: "(3 = unat (w :: 16 word)) = (w = 3)"
proof
  assume "3 = unat w"
  then have "of_nat (unat w) = (of_nat 3 :: 16 word)" by simp
  then show "w = 3" by simp
next
  assume "w = 3"
  then show "3 = unat w" by simp
qed

lemmas out_received_defs = x360d_report_out_received_def Let_def sizeof_x360_message_rumble_t_def
  sizeof_x360_message_led_t_def invoke_def unat_eq_8 unat_eq_3 X360_MESSAGE_TYPE_OUT_RUMBLE_def
  X360_MESSAGE_TYPE_OUT_LED_def


lemma new_calls_append [simp]: "calls s' = calls s @ cs \<Longrightarrow> new_calls s s' = cs"
  by (simp add: new_calls_def)

lemma new_calls_same [simp]: "new_calls s s = []"
  by (simp add: new_calls_def)




lemma get_instance_by_ep_from_Some:
  "get_instance_by_ep_from k xs e = Some i \<Longrightarrow>
     k \<le> i \<and> i - k < length xs \<and> (e = ep_in (xs ! (i - k)) \<or> e = ep_out (xs ! (i - k)))"
proof (induction xs arbitrary: k)
  case Nil
  then show ?case by simp
next
  case (Cons x xs)
  show ?case
  proof (cases "e = ep_in x \<or> e = ep_out x")
    case True
    with Cons.prems have "i = k" by simp
    with True show ?thesis by auto
  next
    case False
    with Cons.prems have "get_instance_by_ep_from (Suc k) xs e = Some i" by auto
    from Cons.IH [OF this] have h: "Suc k \<le> i" "i - Suc k < length xs"
      "e = ep_in (xs ! (i - Suc k)) \<or> e = ep_out (xs ! (i - Suc k))" by auto
    from h(1) have e: "i - k = Suc (i - Suc k)" by arith
    from h e show ?thesis by auto
  qed
qed

lemma get_instance_by_ep_Some:
  "get_instance_by_ep xs e = Some i \<Longrightarrow> i < length xs \<and> (e = ep_in (xs ! i) \<or> e = ep_out (xs ! i))"
  using get_instance_by_ep_from_Some [of 0 xs e i] by (simp add: get_instance_by_ep_def)

lemma x360d_report_out_received_rumble:
  assumes "x360d_received_rumble_cb app" "transfer_out_buf (instances s ! i) ! 0 = 0x00" "w = 8"
  shows "x360d_report_out_received app i w s =
     s\<lparr>calls := calls s @ [App_callback (X360d_received_rumble_cb (itf_num (instances s ! i))
         (transfer_out_buf (instances s ! i) ! 3) (transfer_out_buf (instances s ! i) ! 4))]\<rparr>"
  using assms by (simp add: out_received_defs)

lemma x360d_report_out_received_no_rumble:
  assumes "\<not> (x360d_received_rumble_cb app \<and> transfer_out_buf (instances s ! i) ! 0 = 0x00 \<and> w = 8)"
  shows "\<not> list_ex is_received_rumble (new_calls s (x360d_report_out_received app i w s))
       \<and> (\<exists>cs. calls (x360d_report_out_received app i w s) = calls s @ cs)"
  using assms by (auto simp: out_received_defs new_calls_def)

lemma x360d_report_out_received_buf:
  "i < length (instances s) \<Longrightarrow>
   transfer_out_buf (instances (x360d_report_out_received app i w s) ! i)
     = transfer_out_buf (instances s ! i)"
  by (auto simp: out_received_defs)

text \<open>Claim C4 as stated fails: an 8-byte message of type \<open>0x00\<close> whose header says length
  5, not 8, still reaches \<open>received_rumble\<close>.\<close>

theorem x360d_out_complete_rumble_counterexample:
  "calls (x360_out_message x360_app_full 0 [0x00, 0x05, 0x00, 0x80, 0x40, 0, 0, 0] x360_bound_state)
     = [App_callback (X360d_received_rumble_cb 0 0x80 0x40),
        Usbd_edpt_xfer 0 0x01 (Transfer_out_buf 0) 8]
   \<and> x360_message_header_of [0x00, 0x05, 0x00, 0x80, 0x40, 0, 0, 0] = (0x00, 0x05)"
  by (simp add: x360_out_message_def receive_out_def x360_sample_defs x360_app_full_def
      x360d_xfer_cb_def get_instance_by_ep_def out_received_defs memcpy_def
      usbd_edpt_xfer_def usbd_edpt_xfer_status_def X360_TRANSFER_OUT_BUFFER_SIZE_def
      x360_message_header_of_def)

text \<open>
  Claim C4 (amended). When a transfer completes successfully on the OUT endpoint of a
  bound instance, the call returns true, its last action is to re-arm the OUT endpoint
  with the instance's OUT buffer for 8 bytes, and the buffer's content is unchanged; this
  holds for every message and whatever callbacks the application defines. The driver
  invokes \<open>received_rumble(itf, left, right)\<close>, with the bytes at offsets 3 and 4, exactly
  when the application defines that callback, the message's type byte is \<open>0x00\<close> and the
  transferred byte count, narrowed to 16 bits, is 8; the header's length byte is not
  examined. In every other case no rumble callback is made.
\<close>

theorem x360d_out_complete_rumble:
  assumes found: "get_instance_by_ep (instances s) ep_addr = Some i"
    and out: "ep_addr = ep_out (instances s ! i)"
    and notin: "ep_addr \<noteq> ep_in (instances s ! i)"
    and port: "rhp = rhport (instances s ! i)"
  shows "fst (x360d_xfer_cb app rhp ep_addr XFER_RESULT_SUCCESS n s)
       \<and> (let s' = snd (x360d_xfer_cb app rhp ep_addr XFER_RESULT_SUCCESS n s);
               message = transfer_out_buf (instances s ! i);
               rearm = Usbd_edpt_xfer rhp ep_addr (Transfer_out_buf i) 8
           in last (new_calls s s') = rearm
              \<and> transfer_out_buf (instances s' ! i) = message
              \<and> (if x360d_received_rumble_cb app
                     \<and> message ! 0 = 0x00 \<and> (ucast n :: uint16_t) = 8
                  then new_calls s s' =
                         [App_callback (X360d_received_rumble_cb (itf_num (instances s ! i))
                                          (message ! 3) (message ! 4)), rearm]
                  else \<not> list_ex is_received_rumble (new_calls s s')))"
proof -
  from get_instance_by_ep_Some [OF found] have i: "i < length (instances s)" by simp
  let ?r = "x360d_report_out_received app i (ucast n) s"
  have run: "x360d_xfer_cb app rhp ep_addr XFER_RESULT_SUCCESS n s =
      (True, ?r\<lparr>ep_status := (ep_status ?r)(ep_addr := (ep_status ?r ep_addr)\<lparr>busy := True\<rparr>),
                calls := calls ?r @ [Usbd_edpt_xfer rhp ep_addr (Transfer_out_buf i) 8]\<rparr>)"
    using found out notin port
    by (simp add: x360d_xfer_cb_def Let_def usbd_edpt_xfer_def usbd_edpt_xfer_status_def
        X360_TRANSFER_OUT_BUFFER_SIZE_def)
  show ?thesis
  proof (cases "x360d_received_rumble_cb app
      \<and> transfer_out_buf (instances s ! i) ! 0 = 0x00 \<and> (ucast n :: uint16_t) = 8")
    case True
    with x360d_report_out_received_rumble [of app s i "ucast n"]
      x360d_report_out_received_buf [OF i, of app "ucast n"]
    show ?thesis unfolding run by (simp add: new_calls_def Let_def)
  next
    case False
    from x360d_report_out_received_no_rumble [OF False]
    obtain cs where cs: "calls ?r = calls s @ cs" "\<not> list_ex is_received_rumble (new_calls s ?r)"
      by blast
    with False x360d_report_out_received_buf [OF i, of app "ucast n"]
    show ?thesis unfolding run by (auto simp: new_calls_def Let_def list_ex_iff)
  qed
qed

text \<open>The rumble scenario \<open>00 08 00 80 40 00 00 00\<close>, a LED message for comparison, and the
  rumble message again for an application without callbacks, as the gamepad example is.\<close>

theorem x360d_out_complete_rumble_witness:
  "fst (x360d_xfer_cb x360_app_full 0 0x01 XFER_RESULT_SUCCESS 8
          (receive_out 0 [0x00, 0x08, 0x00, 0x80, 0x40, 0, 0, 0] x360_bound_state))
   \<and> new_calls (receive_out 0 [0x00, 0x08, 0x00, 0x80, 0x40, 0, 0, 0] x360_bound_state)
        (snd (x360d_xfer_cb x360_app_full 0 0x01 XFER_RESULT_SUCCESS 8
               (receive_out 0 [0x00, 0x08, 0x00, 0x80, 0x40, 0, 0, 0] x360_bound_state)))
      = [App_callback (X360d_received_rumble_cb 0 0x80 0x40),
         Usbd_edpt_xfer 0 0x01 (Transfer_out_buf 0) 8]
   \<and> \<not> list_ex is_received_rumble
        (new_calls (receive_out 0 [0x01, 0x03, 0x06] x360_bound_state)
           (snd (x360d_xfer_cb x360_app_full 0 0x01 XFER_RESULT_SUCCESS 3
                  (receive_out 0 [0x01, 0x03, 0x06] x360_bound_state))))
   \<and> last (new_calls (receive_out 0 [0x01, 0x03, 0x06] x360_bound_state)
           (snd (x360d_xfer_cb x360_app_full 0 0x01 XFER_RESULT_SUCCESS 3
                  (receive_out 0 [0x01, 0x03, 0x06] x360_bound_state))))
      = Usbd_edpt_xfer 0 0x01 (Transfer_out_buf 0) 8
   \<and> fst (x360d_xfer_cb x360_app_none 0 0x01 XFER_RESULT_SUCCESS 8
          (receive_out 0 [0x00, 0x08, 0x00, 0x80, 0x40, 0, 0, 0] x360_bound_state))
   \<and> last (new_calls (receive_out 0 [0x00, 0x08, 0x00, 0x80, 0x40, 0, 0, 0] x360_bound_state)
        (snd (x360d_xfer_cb x360_app_none 0 0x01 XFER_RESULT_SUCCESS 8
               (receive_out 0 [0x00, 0x08, 0x00, 0x80, 0x40, 0, 0, 0] x360_bound_state))))
      = Usbd_edpt_xfer 0 0x01 (Transfer_out_buf 0) 8
   \<and> \<not> list_ex is_received_rumble
        (new_calls (receive_out 0 [0x00, 0x08, 0x00, 0x80, 0x40, 0, 0, 0] x360_bound_state)
        (snd (x360d_xfer_cb x360_app_none 0 0x01 XFER_RESULT_SUCCESS 8
               (receive_out 0 [0x00, 0x08, 0x00, 0x80, 0x40, 0, 0, 0] x360_bound_state))))"
proof -
  let ?s = "receive_out 0 [0x00, 0x08, 0x00, 0x80, 0x40, 0, 0, 0] x360_bound_state"
  let ?t = "receive_out 0 [0x01, 0x03, 0x06] x360_bound_state"
  have s: "instances ?s = [x360_bound_instance\<lparr>transfer_out_buf := [0x00, 0x08, 0x00, 0x80, 0x40, 0, 0, 0]\<rparr>]"
    by (simp_all add: receive_out_def x360_sample_defs memcpy_def)
  have t: "instances ?t = [x360_bound_instance\<lparr>transfer_out_buf := [0x01, 0x03, 0x06, 0, 0, 0, 0, 0]\<rparr>]"
    by (simp_all add: receive_out_def x360_sample_defs memcpy_def)
  have found: "get_instance_by_ep (instances ?s) 0x01 = Some 0"
    "get_instance_by_ep (instances ?t) 0x01 = Some 0"
    by (simp_all add: s t get_instance_by_ep_def x360_bound_instance_def)
  have ids: "0x01 = ep_out (instances ?s ! 0)" "0x01 \<noteq> ep_in (instances ?s ! 0)"
    "0 = rhport (instances ?s ! 0)"
    "0x01 = ep_out (instances ?t ! 0)" "0x01 \<noteq> ep_in (instances ?t ! 0)"
    "0 = rhport (instances ?t ! 0)"
    by (simp_all add: s t x360_bound_instance_def)
  have cb: "x360d_received_rumble_cb x360_app_full" "\<not> x360d_received_rumble_cb x360_app_none"
    by (simp_all add: x360_app_full_def x360_app_none_def)
  have v: "itf_num (instances ?s ! 0) = 0"
    "transfer_out_buf (instances ?s ! 0) = [0x00, 0x08, 0x00, 0x80, 0x40, 0, 0, 0]"
    "transfer_out_buf (instances ?t ! 0) = [0x01, 0x03, 0x06, 0, 0, 0, 0, 0]"
    by (simp_all add: s t x360_bound_instance_def)
  from x360d_out_complete_rumble [OF found(1) ids(1-3), of x360_app_full 8]
  have a: "fst (x360d_xfer_cb x360_app_full 0 0x01 XFER_RESULT_SUCCESS 8 ?s)"
    "new_calls ?s (snd (x360d_xfer_cb x360_app_full 0 0x01 XFER_RESULT_SUCCESS 8 ?s))
      = [App_callback (X360d_received_rumble_cb 0 0x80 0x40),
         Usbd_edpt_xfer 0 0x01 (Transfer_out_buf 0) 8]"
    by (simp_all add: Let_def v cb)
  from x360d_out_complete_rumble [OF found(2) ids(4-6), of x360_app_full 3]
  have b: "\<not> list_ex is_received_rumble
        (new_calls ?t (snd (x360d_xfer_cb x360_app_full 0 0x01 XFER_RESULT_SUCCESS 3 ?t)))"
    "last (new_calls ?t (snd (x360d_xfer_cb x360_app_full 0 0x01 XFER_RESULT_SUCCESS 3 ?t)))
      = Usbd_edpt_xfer 0 0x01 (Transfer_out_buf 0) 8"
    by (simp_all add: Let_def v cb)
  from x360d_out_complete_rumble [OF found(1) ids(1-3), of x360_app_none 8]
  have c: "fst (x360d_xfer_cb x360_app_none 0 0x01 XFER_RESULT_SUCCESS 8 ?s)"
    "last (new_calls ?s (snd (x360d_xfer_cb x360_app_none 0 0x01 XFER_RESULT_SUCCESS 8 ?s)))
      = Usbd_edpt_xfer 0 0x01 (Transfer_out_buf 0) 8"
    "\<not> list_ex is_received_rumble
        (new_calls ?s (snd (x360d_xfer_cb x360_app_none 0 0x01 XFER_RESULT_SUCCESS 8 ?s)))"
    by (simp_all add: Let_def v cb)
  from a b c show ?thesis by (intro conjI)
qed

section \<open>MS OS 1.0 responder\<close>

text \<open>
  Claim C8. \<open>ms_os_control_xfer_cb\<close> reports a request handled exactly when the request
  is vendor-typed, \<open>bRequest\<close> is the configured vendor code, and \<open>wIndex\<close> is \<open>0x04\<close> with
  a compat-ID provider defined or \<open>0x05\<close> with an extended-properties provider defined. It
  replies (one control transfer of the provider's buffer and length) only when, in
  addition, the stage is SETUP; in every other case it makes no call and changes nothing,
  and when the conditions fail it returns unhandled.
\<close>

theorem ms_os_control_xfer_cb_handled:
  "fst (ms_os_control_xfer_cb app rhp stage request s) =
     (bmRequestType_bit_type request = TUSB_REQ_TYPE_VENDOR
      \<and> bRequest request = MS_OS_DESCRIPTOR_VENDORCODE
      \<and> (wIndex request = 0x04 \<and> tud_descriptor_ms_compatid_cb app \<noteq> None
         \<or> wIndex request = 0x05 \<and> tud_descriptor_ms_property_cb app \<noteq> None))
   \<and> snd (ms_os_control_xfer_cb app rhp stage request s) =
     (if bmRequestType_bit_type request = TUSB_REQ_TYPE_VENDOR
         \<and> bRequest request = MS_OS_DESCRIPTOR_VENDORCODE \<and> stage = CONTROL_STAGE_SETUP
      then (case (if wIndex request = 0x04 then tud_descriptor_ms_compatid_cb app
                  else if wIndex request = 0x05 then tud_descriptor_ms_property_cb app
                  else None) of
              Some (buffer, len) \<Rightarrow>
                s\<lparr>calls := calls s @ [Tud_control_xfer rhp request (App_buffer buffer) len]\<rparr>
            | None \<Rightarrow> s)
      else s)"
  by (auto simp: ms_os_control_xfer_cb_def tud_control_xfer_def
      MS_EXTENDED_COMPATID_DESCRIPTOR_def MS_EXTENDED_PROPERTIES_DESCRIPTOR_def
      split: option.splits)

text \<open>The compat-ID request of the enumeration scenario at SETUP and at ACK, without a
  provider, and with another index.\<close>

theorem ms_os_control_xfer_cb_handled_witness:
  "ms_os_control_xfer_cb x360_app_full 0 CONTROL_STAGE_SETUP request_ms_compatid x360_bound_state
     = (True, x360_bound_state
          \<lparr>calls := [Tud_control_xfer 0 request_ms_compatid (App_buffer 1000) 40]\<rparr>)
   \<and> ms_os_control_xfer_cb x360_app_full 0 CONTROL_STAGE_ACK request_ms_compatid x360_bound_state
     = (True, x360_bound_state)
   \<and> ms_os_control_xfer_cb x360_app_none 0 CONTROL_STAGE_SETUP request_ms_compatid x360_bound_state
     = (False, x360_bound_state)
   \<and> ms_os_control_xfer_cb x360_app_full 0 CONTROL_STAGE_SETUP
        (request_ms_compatid\<lparr>wIndex := 0x06\<rparr>) x360_bound_state
     = (False, x360_bound_state)"
proof -
  have r: "bmRequestType_bit_type request_ms_compatid = TUSB_REQ_TYPE_VENDOR"
    "bRequest request_ms_compatid = MS_OS_DESCRIPTOR_VENDORCODE"
    "wIndex request_ms_compatid = 0x04"
    "bmRequestType_bit_type (request_ms_compatid\<lparr>wIndex := 0x06\<rparr>) = TUSB_REQ_TYPE_VENDOR"
    by (simp_all add: request_bits request_ms_compatid_def TUSB_REQ_TYPE_VENDOR_def
        MS_OS_DESCRIPTOR_VENDORCODE_def)
  have a: "tud_descriptor_ms_compatid_cb x360_app_full = Some (1000, 40)"
    "tud_descriptor_ms_compatid_cb x360_app_none = None"
    by (simp_all add: x360_app_full_def x360_app_none_def)
  have c: "calls x360_bound_state = []" "CONTROL_STAGE_ACK \<noteq> CONTROL_STAGE_SETUP"
    by (simp_all add: x360_bound_state_def CONTROL_STAGE_ACK_def CONTROL_STAGE_SETUP_def)
  note T = ms_os_control_xfer_cb_handled [where s = x360_bound_state and rhp = 0]
  show ?thesis
    by (simp add: prod_eq_iff T r a c)
qed

section \<open>X360 LED state after reset\<close>

lemma nth_list_update_any: "xs[j := y] ! i = (if i = j \<and> j < length xs then y else xs ! i)"
proof (cases "j < length xs")
  case True
  then show ?thesis by (simp add: nth_list_update)
next
  case False
  then have "xs[j := y] = xs" by (simp add: list_update_beyond)
  with False show ?thesis by simp
qed

lemma x360d_open_instances:
  "length (instances (snd (x360d_open mem rhp desc_itf max_len s))) = length (instances s)
   \<and> (i < length (instances s) \<longrightarrow>
        led (instances (snd (x360d_open mem rhp desc_itf max_len s)) ! i) = led (instances s ! i))"
  by (auto simp: x360d_open_def Let_def usbd_edpt_xfer_def usbd_edpt_xfer_status_def
      nth_list_update_any split: option.splits prod.splits bool.splits)

lemma x360d_reset_instances:
  "length (instances (x360d_reset rhp s)) = length (instances s)
   \<and> (i < length (instances s) \<longrightarrow> instances (x360d_reset rhp s) ! i = x360d_instance_zero)"
  by (simp add: x360d_reset_def)

text \<open>
  Claim C9. After \<open>x360d_reset\<close> every instance's stored LED animation is
  \<open>X360_LED_ALL_OFF\<close> (\<open>0x00\<close>), and \<open>x360d_open\<close> leaves it so. Hence a LED message
  carrying animation \<open>0x00\<close> that is the first to arrive after reset and open is taken as
  unchanged: it is dropped, no callback is invoked and the state stays as it is.
\<close>

theorem x360d_first_led_off_dropped:
  assumes i: "i < length (instances s)"
  shows "led (instances (x360d_reset rhp0 s) ! i) = X360_LED_ALL_OFF
       \<and> (let s1 = snd (x360d_open mem rhp desc_itf max_len (x360d_reset rhp0 s));
              s2 = receive_out i [X360_MESSAGE_TYPE_OUT_LED, 3, X360_LED_ALL_OFF] s1
          in led (instances s1 ! i) = X360_LED_ALL_OFF
             \<and> x360d_report_out_received app i 3 s2 = s2)"
proof -
  let ?s0 = "x360d_reset rhp0 s"
  let ?s1 = "snd (x360d_open mem rhp desc_itf max_len ?s0)"
  let ?s2 = "receive_out i [X360_MESSAGE_TYPE_OUT_LED, 3, X360_LED_ALL_OFF] ?s1"
  from i x360d_reset_instances [of rhp0 s i]
  have r: "i < length (instances ?s0)" "led (instances ?s0 ! i) = X360_LED_ALL_OFF"
    by (simp_all add: x360d_instance_zero_def X360_LED_ALL_OFF_def)
  from r x360d_open_instances [of mem rhp desc_itf max_len ?s0 i]
  have o: "i < length (instances ?s1)" "led (instances ?s1 ! i) = X360_LED_ALL_OFF"
    by simp_all
  have drop: "x360d_report_out_received app i 3 ?s2 = ?s2"
    using o
    by (simp add: receive_out_def out_received_defs memcpy_def X360_LED_ALL_OFF_def)
  from r o drop show ?thesis by (simp add: Let_def)
qed

text \<open>Reset, bind the example's interface (the open returns 40 and arms the OUT endpoint),
  then receive \<open>01 03 00\<close>: the only calls are the arming and the re-arming.\<close>

theorem x360d_first_led_off_dropped_witness:
  "fst (x360d_open (memory_of x360_desc_configuration) 0 9 40 (x360d_reset 0 x360_unbound_state)) = 40
   \<and> led (instances (x360d_reset 0 x360_unbound_state) ! 0) = X360_LED_ALL_OFF
   \<and> led (instances (snd (x360d_open (memory_of x360_desc_configuration) 0 9 40
                              (x360d_reset 0 x360_unbound_state))) ! 0) = X360_LED_ALL_OFF
   \<and> x360d_report_out_received x360_app_full 0 3
        (receive_out 0 [X360_MESSAGE_TYPE_OUT_LED, 3, X360_LED_ALL_OFF]
           (snd (x360d_open (memory_of x360_desc_configuration) 0 9 40
                   (x360d_reset 0 x360_unbound_state))))
      = receive_out 0 [X360_MESSAGE_TYPE_OUT_LED, 3, X360_LED_ALL_OFF]
           (snd (x360d_open (memory_of x360_desc_configuration) 0 9 40
                   (x360d_reset 0 x360_unbound_state)))
   \<and> calls (x360_out_message x360_app_full 0 [0x01, 0x03, 0x00]
               (snd (x360d_open (memory_of x360_desc_configuration) 0 9 40
                       (x360d_reset 0 x360_unbound_state))))
      = [Usbd_edpt_xfer 0 0x01 (Transfer_out_buf 0) 8, Usbd_edpt_xfer 0 0x01 (Transfer_out_buf 0) 8]"
proof -
  have i: "0 < length (instances x360_unbound_state)"
    by (simp add: x360_unbound_state_def)
  have opened: "fst (x360d_open (memory_of x360_desc_configuration) 0 9 40
      (x360d_reset 0 x360_unbound_state)) = 40"
    by code_simp
  have e2e: "calls (x360_out_message x360_app_full 0 [0x01, 0x03, 0x00]
               (snd (x360d_open (memory_of x360_desc_configuration) 0 9 40
                       (x360d_reset 0 x360_unbound_state))))
      = [Usbd_edpt_xfer 0 0x01 (Transfer_out_buf 0) 8, Usbd_edpt_xfer 0 0x01 (Transfer_out_buf 0) 8]"
    by code_simp
  from x360d_first_led_off_dropped [OF i, of 0 "memory_of x360_desc_configuration" 0 9 40 x360_app_full]
    opened e2e
  show ?thesis by (simp only: Let_def)
qed

section \<open>At most one outstanding IN transfer\<close>

lemmas chidd_sample_defs = chidd_bound_state_def chidd_bound_instance_def idle_endpoints_def
  get_instance_by_itf_def NULL_def

text \<open>Claim C5 as stated fails: \<open>x360d_n_report\<close> for interface 1, which no instance is
  bound to, returns false although every endpoint is idle and nothing was ever enqueued.\<close>

theorem report_false_when_unbound_counterexample:
  "fst (x360d_n_report 1 controls_button_A x360_bound_state) = False
   \<and> get_instance_by_itf (instances x360_bound_state) 1 = None
   \<and> ep_status x360_bound_state = idle_endpoints
   \<and> calls x360_bound_state = []"
  by (simp add: x360d_n_report_def x360_sample_defs)

text \<open>
  Claim C5 (amended). \<open>x360d_n_report\<close>, and \<open>chidd_send_report\<close> when called with a
  non-NULL buffer and a non-zero length, return false if and only if no bound instance
  carries the interface number or that instance's IN endpoint is busy or already claimed
  (a transfer is outstanding); in these cases a false return leaves the driver and
  endpoint state unchanged. (The statement is in terms of a true return: the call succeeds
  exactly when the instance is bound and its IN endpoint neither busy nor claimed.)
\<close>

theorem report_false_iff_unbound_or_outstanding:
  "(fst (x360d_n_report n report s) =
      (case get_instance_by_itf (instances s) n of
         None \<Rightarrow> False
       | Some i \<Rightarrow> \<not> busy (ep_status s (ep_in (instances s ! i)))
                    \<and> \<not> claimed (ep_status s (ep_in (instances s ! i)))))
   \<and> (\<not> fst (x360d_n_report n report s) \<longrightarrow> snd (x360d_n_report n report s) = s)
   \<and> (buf \<noteq> NULL \<and> len \<noteq> 0 \<longrightarrow>
        (fst (chidd_send_report n buf len hs) =
           (case get_instance_by_itf (instances hs) n of
              None \<Rightarrow> False
            | Some i \<Rightarrow> \<not> busy (ep_status hs (ep_in (instances hs ! i)))
                         \<and> \<not> claimed (ep_status hs (ep_in (instances hs ! i)))))
        \<and> (\<not> fst (chidd_send_report n buf len hs) \<longrightarrow> snd (chidd_send_report n buf len hs) = hs))"
proof -
  have x: "fst (x360d_n_report n report s) =
      (case get_instance_by_itf (instances s) n of
         None \<Rightarrow> False
       | Some i \<Rightarrow> \<not> busy (ep_status s (ep_in (instances s ! i)))
                    \<and> \<not> claimed (ep_status s (ep_in (instances s ! i))))"
    by (simp add: x360d_n_report_def Let_def usbd_edpt_claim_def usbd_edpt_xfer_def
        usbd_edpt_xfer_status_def sizeof_x360_message_controls_t_def
        X360_TRANSFER_IN_BUFFER_SIZE_def split: option.splits)
  have xs: "snd (x360d_n_report n report s) = s" if "\<not> fst (x360d_n_report n report s)"
    using that
    by (auto simp: x360d_n_report_def Let_def usbd_edpt_claim_def usbd_edpt_xfer_def
        usbd_edpt_xfer_status_def sizeof_x360_message_controls_t_def
        X360_TRANSFER_IN_BUFFER_SIZE_def split: option.splits if_splits)
  have h: "fst (chidd_send_report n buf len hs) =
      (case get_instance_by_itf (instances hs) n of
         None \<Rightarrow> False
       | Some i \<Rightarrow> \<not> busy (ep_status hs (ep_in (instances hs ! i)))
                    \<and> \<not> claimed (ep_status hs (ep_in (instances hs ! i))))"
    if "buf \<noteq> NULL \<and> len \<noteq> 0"
    using that
    by (auto simp: chidd_send_report_def Let_def usbd_edpt_claim_def usbd_edpt_xfer_def
        usbd_edpt_xfer_status_def split: option.splits)
  have hs: "snd (chidd_send_report n buf len hs) = hs"
    if "buf \<noteq> NULL \<and> len \<noteq> 0" "\<not> fst (chidd_send_report n buf len hs)"
    using that
    by (auto simp: chidd_send_report_def Let_def usbd_edpt_claim_def usbd_edpt_xfer_def
        usbd_edpt_xfer_status_def split: option.splits if_splits)
  from x xs h hs show ?thesis by blast
qed

text \<open>On the bound sample instances a first report succeeds, a second one while the first
  is outstanding fails and changes nothing.\<close>

theorem report_false_iff_unbound_or_outstanding_witness:
  "fst (x360d_n_report 0 controls_button_A x360_bound_state)
   \<and> \<not> fst (x360d_n_report 0 controls_button_A
              (snd (x360d_n_report 0 controls_button_A x360_bound_state)))
   \<and> snd (x360d_n_report 0 controls_button_A
              (snd (x360d_n_report 0 controls_button_A x360_bound_state)))
       = snd (x360d_n_report 0 controls_button_A x360_bound_state)
   \<and> fst (chidd_send_report 0 5000 8 chidd_bound_state)
   \<and> \<not> fst (chidd_send_report 0 5000 8 (snd (chidd_send_report 0 5000 8 chidd_bound_state)))
   \<and> snd (chidd_send_report 0 5000 8 (snd (chidd_send_report 0 5000 8 chidd_bound_state)))
       = snd (chidd_send_report 0 5000 8 chidd_bound_state)"
proof -
  let ?s1 = "snd (x360d_n_report 0 controls_button_A x360_bound_state)"
  let ?h1 = "snd (chidd_send_report 0 5000 8 chidd_bound_state)"
  have args: "(5000 :: ptr) \<noteq> NULL \<and> (8 :: uint16_t) \<noteq> 0"
    by (simp add: NULL_def)
  have s0: "get_instance_by_itf (instances x360_bound_state) 0 = Some 0"
    "\<not> busy (ep_status x360_bound_state (ep_in (instances x360_bound_state ! 0)))"
    "\<not> claimed (ep_status x360_bound_state (ep_in (instances x360_bound_state ! 0)))"
    by (simp_all add: x360_sample_defs)
  have s1: "get_instance_by_itf (instances ?s1) 0 = Some 0"
    "claimed (ep_status ?s1 (ep_in (instances ?s1 ! 0)))"
    by (simp_all add: x360d_n_report_def x360_sample_defs usbd_edpt_claim_def Let_def
        usbd_edpt_xfer_def usbd_edpt_xfer_status_def sizeof_x360_message_controls_t_def
        X360_TRANSFER_IN_BUFFER_SIZE_def)
  have h0: "get_instance_by_itf (instances chidd_bound_state) 0 = Some 0"
    "\<not> busy (ep_status chidd_bound_state (ep_in (instances chidd_bound_state ! 0)))"
    "\<not> claimed (ep_status chidd_bound_state (ep_in (instances chidd_bound_state ! 0)))"
    by (simp_all add: chidd_sample_defs)
  have h1: "get_instance_by_itf (instances ?h1) 0 = Some 0"
    "claimed (ep_status ?h1 (ep_in (instances ?h1 ! 0)))"
    by (simp_all add: chidd_send_report_def chidd_sample_defs usbd_edpt_claim_def Let_def
        usbd_edpt_xfer_def usbd_edpt_xfer_status_def)
  note A = report_false_iff_unbound_or_outstanding
      [of 0 controls_button_A x360_bound_state 5000 8 chidd_bound_state]
  note B = report_false_iff_unbound_or_outstanding
      [of 0 controls_button_A ?s1 5000 8 ?h1]
  from A args s0 h0 have a: "fst (x360d_n_report 0 controls_button_A x360_bound_state)"
    "fst (chidd_send_report 0 5000 8 chidd_bound_state)"
    by simp_all
  from B args s1 h1 have b: "\<not> fst (x360d_n_report 0 controls_button_A ?s1)"
    "\<not> fst (chidd_send_report 0 5000 8 ?h1)"
    by simp_all
  from B args b have c: "snd (x360d_n_report 0 controls_button_A ?s1) = ?s1"
    "snd (chidd_send_report 0 5000 8 ?h1) = ?h1"
    by blast+
  from a b c show ?thesis by (intro conjI)
qed

section \<open>HID class requests\<close>

lemma chidd_control_to_class:
  assumes rcpt: "bmRequestType_bit_recipient request = TUSB_REQ_RCPT_INTERFACE"
    and cls: "bmRequestType_bit_type request = TUSB_REQ_TYPE_CLASS"
    and bound: "get_instance_by_itf (instances s) n = Some i"
    and addressed: "wIndex request = ucast n"
    and port: "rhp = rhport (instances s ! i)"
  shows "chidd_control_xfer_cb app mem rhp stage request s
           = chidd_class_specific_request_handler app i stage request s"
proof -
  from get_instance_by_itf_Some [OF bound] have n: "itf_num (instances s ! i) = n" by simp
  have look: "get_instance_by_itf (instances s) (ucast (wIndex request)) = Some i"
    using bound addressed by (simp add: ucast_itf_roundtrip)
  show ?thesis
    using rcpt cls look n addressed port
    by (simp add: chidd_control_xfer_cb_def Let_def TUSB_REQ_TYPE_CLASS_def
        TUSB_REQ_TYPE_STANDARD_def)
qed

lemmas hid_request_codes = HID_REQ_CONTROL_GET_REPORT_def HID_REQ_CONTROL_GET_IDLE_def
  HID_REQ_CONTROL_GET_PROTOCOL_def HID_REQ_CONTROL_SET_REPORT_def HID_REQ_CONTROL_SET_IDLE_def
  HID_REQ_CONTROL_SET_PROTOCOL_def

lemma u16_bytes:
  "tu_u16_low 0x0000 = 0" "tu_u16_high 0x0000 = 0"
  "tu_u16_low 0xFF00 = 0" "tu_u16_high 0xFF00 = 0xFF"
  by (simp_all add: tu_u16_low_def tu_u16_high_def)

text \<open>
  Claim C6. For a \<open>SET_IDLE\<close> class request (direction OUT) addressed to a bound HID
  interface on its port, at the SETUP stage the driver first sends the zero-length status
  and, when the low byte of \<open>wValue\<close> (the report id) is 0, stores the high byte of
  \<open>wValue\<close> as the instance's \<open>idle_rate\<close> (otherwise \<open>idle_rate\<close> is kept):
  \<open>wValue = 0x0000\<close> stores 0 and \<open>wValue = 0xFF00\<close> stores \<open>0xFF\<close>. The instances after
  the request are the same whatever callbacks the application defines; a \<open>set_idle\<close>
  delegate, when present, is invoked after the status.
\<close>

theorem chidd_set_idle_stores_rate:
  assumes rcpt: "bmRequestType_bit_recipient request = TUSB_REQ_RCPT_INTERFACE"
    and cls: "bmRequestType_bit_type request = TUSB_REQ_TYPE_CLASS"
    and dir: "bmRequestType_bit_direction request = 0"
    and breq: "bRequest request = HID_REQ_CONTROL_SET_IDLE"
    and bound: "get_instance_by_itf (instances s) n = Some i"
    and addressed: "wIndex request = ucast n"
    and port: "rhp = rhport (instances s ! i)"
  shows "let s' = snd (chidd_control_xfer_cb app mem rhp CONTROL_STAGE_SETUP request s) in
           new_calls s s' =
             Tud_control_status rhp request
             # (case chidd_set_idle_cb app of
                  None \<Rightarrow> []
                | Some cb \<Rightarrow> [App_callback (Chidd_set_idle_cb n (tu_u16_low (wValue request))
                                               (tu_u16_high (wValue request)))])
         \<and> idle_rate (instances s' ! i) =
             (if tu_u16_low (wValue request) = 0 then tu_u16_high (wValue request)
              else idle_rate (instances s ! i))
         \<and> (wValue request = 0x0000 \<longrightarrow> idle_rate (instances s' ! i) = 0)
         \<and> (wValue request = 0xFF00 \<longrightarrow> idle_rate (instances s' ! i) = 0xFF)
         \<and> instances s' =
             instances (snd (chidd_control_xfer_cb app' mem rhp CONTROL_STAGE_SETUP request s))"
proof -
  from get_instance_by_itf_Some [OF bound] have i: "i < length (instances s)"
    and n: "itf_num (instances s ! i) = n" by simp_all
  note to_class = chidd_control_to_class [OF rcpt cls bound addressed port]
  have run: "\<And>a. chidd_class_specific_request_handler a i CONTROL_STAGE_SETUP request s =
      (case chidd_set_idle_cb a of
         None \<Rightarrow> False
       | Some cb \<Rightarrow> cb n (tu_u16_low (wValue request)) (tu_u16_high (wValue request)),
       s\<lparr>instances := (instances s)
            [i := (if tu_u16_low (wValue request) = 0
                   then (instances s ! i)\<lparr>idle_rate := tu_u16_high (wValue request)\<rparr>
                   else instances s ! i)],
         calls := calls s @ Tud_control_status rhp request
             # (case chidd_set_idle_cb a of
                  None \<Rightarrow> []
                | Some cb \<Rightarrow> [App_callback (Chidd_set_idle_cb n (tu_u16_low (wValue request))
                                               (tu_u16_high (wValue request)))])\<rparr>)"
    using dir breq n port
    by (simp add: chidd_class_specific_request_handler_def Let_def hid_request_codes
        tud_control_status_def invoke_def split: option.splits)
  show ?thesis
    unfolding to_class run using i
    by (auto simp: Let_def new_calls_def u16_bytes)
qed

text \<open>\<open>SET_IDLE\<close> with \<open>0xFF00\<close> and no delegate, then with \<open>0x0000\<close> and a delegate.\<close>

theorem chidd_set_idle_stores_rate_witness:
  "idle_rate (instances (snd (chidd_control_xfer_cb chidd_app_minimal (memory_of hid_desc_interface)
        0 CONTROL_STAGE_SETUP (request_set_idle 0xFF00) chidd_bound_state)) ! 0) = 0xFF
   \<and> new_calls chidd_bound_state
        (snd (chidd_control_xfer_cb chidd_app_minimal (memory_of hid_desc_interface)
                0 CONTROL_STAGE_SETUP (request_set_idle 0xFF00) chidd_bound_state))
      = [Tud_control_status 0 (request_set_idle 0xFF00)]
   \<and> idle_rate (instances (snd (chidd_control_xfer_cb chidd_app_delegating (memory_of hid_desc_interface)
        0 CONTROL_STAGE_SETUP (request_set_idle 0x0000)
        (snd (chidd_control_xfer_cb chidd_app_minimal (memory_of hid_desc_interface)
                0 CONTROL_STAGE_SETUP (request_set_idle 0xFF00) chidd_bound_state)))) ! 0) = 0"
proof -
  let ?mem = "memory_of hid_desc_interface"
  let ?s1 = "snd (chidd_control_xfer_cb chidd_app_minimal ?mem 0 CONTROL_STAGE_SETUP
                    (request_set_idle 0xFF00) chidd_bound_state)"
  have r: "bmRequestType_bit_recipient (request_set_idle v) = TUSB_REQ_RCPT_INTERFACE"
    "bmRequestType_bit_type (request_set_idle v) = TUSB_REQ_TYPE_CLASS"
    "bmRequestType_bit_direction (request_set_idle v) = 0"
    "bRequest (request_set_idle v) = HID_REQ_CONTROL_SET_IDLE"
    "wIndex (request_set_idle v) = ucast (0 :: uint8_t)"
    "wValue (request_set_idle v) = v" for v
    by (simp_all add: request_bits request_set_idle_def TUSB_REQ_RCPT_INTERFACE_def
        TUSB_REQ_TYPE_CLASS_def HID_REQ_CONTROL_SET_IDLE_def)
  have b0: "get_instance_by_itf (instances chidd_bound_state) 0 = Some 0"
    "0 = rhport (instances chidd_bound_state ! 0)"
    by (simp_all add: chidd_sample_defs)
  note rA = r [of "0xFF00"] and rB = r [of "0x0000"]
  note A = chidd_set_idle_stores_rate [OF rA(1-4) b0(1) rA(5) b0(2),
      where app = chidd_app_minimal and mem = ?mem and app' = chidd_app_minimal]
  have none: "chidd_set_idle_cb chidd_app_minimal = None"
    by (simp add: chidd_app_minimal_def)
  note A' = A [unfolded Let_def]
  from A' [THEN conjunct2, THEN conjunct2, THEN conjunct2, THEN conjunct1] rA(6)
  have a1: "idle_rate (instances ?s1 ! 0) = 0xFF"
    by (rule mp)
  from A' [THEN conjunct1]
  have a2: "new_calls chidd_bound_state ?s1 = [Tud_control_status 0 (request_set_idle 0xFF00)]"
    by (simp add: none)
  note a = a1 a2
  have b1: "get_instance_by_itf (instances ?s1) 0 = Some 0"
    "0 = rhport (instances ?s1 ! 0)"
    by code_simp+
  note B = chidd_set_idle_stores_rate [OF rB(1-4) b1(1) rB(5) b1(2),
      where app = chidd_app_delegating and mem = ?mem and app' = chidd_app_delegating]
  from B [unfolded Let_def, THEN conjunct2, THEN conjunct2, THEN conjunct1] rB(6)
  have b: "idle_rate (instances (snd (chidd_control_xfer_cb chidd_app_delegating ?mem
        0 CONTROL_STAGE_SETUP (request_set_idle 0x0000) ?s1)) ! 0) = 0"
    by (rule mp)
  from a b show ?thesis by (intro conjI)
qed

lemma chidd_get_protocol_step:
  assumes rcpt: "bmRequestType_bit_recipient greq = TUSB_REQ_RCPT_INTERFACE"
    and cls: "bmRequestType_bit_type greq = TUSB_REQ_TYPE_CLASS"
    and dir: "bmRequestType_bit_direction greq = 1"
    and breq: "bRequest greq = HID_REQ_CONTROL_GET_PROTOCOL"
    and addressed: "wIndex greq = ucast n"
    and bound: "get_instance_by_itf (instances t) n = Some i"
    and port: "rhp = rhport (instances t ! i)"
  shows "chidd_control_xfer_cb app mem rhp CONTROL_STAGE_SETUP greq t
           = (True, t\<lparr>calls := calls t @ [Tud_control_xfer rhp greq (Protocol_mode_of i) 1]\<rparr>)"
  unfolding chidd_control_to_class [OF rcpt cls bound addressed port]
  using dir breq port
  by (simp add: chidd_class_specific_request_handler_def Let_def hid_request_codes
      tud_control_xfer_def)

lemma chidd_get_protocol_iterate:
  assumes rcpt: "bmRequestType_bit_recipient greq = TUSB_REQ_RCPT_INTERFACE"
    and cls: "bmRequestType_bit_type greq = TUSB_REQ_TYPE_CLASS"
    and dir: "bmRequestType_bit_direction greq = 1"
    and breq: "bRequest greq = HID_REQ_CONTROL_GET_PROTOCOL"
    and addressed: "wIndex greq = ucast n"
    and bound: "get_instance_by_itf (instances t) n = Some i"
    and port: "rhp = rhport (instances t ! i)"
  shows "instances (((\<lambda>u. snd (chidd_control_xfer_cb app mem rhp CONTROL_STAGE_SETUP greq u)) ^^ k) t)
           = instances t"
proof (induction k)
  case 0
  show ?case by simp
next
  case (Suc k)
  let ?u = "((\<lambda>u. snd (chidd_control_xfer_cb app mem rhp CONTROL_STAGE_SETUP greq u)) ^^ k) t"
  from Suc bound port have b: "get_instance_by_itf (instances ?u) n = Some i"
    "rhp = rhport (instances ?u ! i)" by simp_all
  from chidd_get_protocol_step [OF rcpt cls dir breq addressed b, of app mem] Suc
  show ?case by simp
qed

lemma get_free_instance_from_Some:
  "get_free_instance_from k xs = Some i \<Longrightarrow> k \<le> i \<and> i - k < length xs"
proof (induction xs arbitrary: k)
  case Nil
  then show ?case by simp
next
  case (Cons x xs)
  show ?case
  proof (cases "0 = ep_in x \<and> 0 = ep_out x")
    case True
    with Cons.prems show ?thesis by simp
  next
    case False
    with Cons.prems have "get_free_instance_from (Suc k) xs = Some i" by auto
    from Cons.IH [OF this] show ?thesis by auto
  qed
qed

lemma get_free_instance_Some: "get_free_instance xs = Some i \<Longrightarrow> i < length xs"
  using get_free_instance_from_Some [of 0 xs i] by (simp add: get_free_instance_def)

lemma chidd_open_protocol_mode:
  assumes opened: "chidd_open app mem rhp desc_itf max_len s = (drv_len, s')"
    and ok: "drv_len \<noteq> 0"
    and free: "get_free_instance (instances s) = Some j"
  shows "protocol_mode (instances s' ! j) = HID_PROTOCOL_REPORT"
proof -
  from get_free_instance_Some [OF free] have j: "j < length (instances s)" .
  from opened ok free j show ?thesis
    by (auto simp: chidd_open_def Let_def invoke_def split: if_splits prod.splits bool.splits)
qed

lemma chidd_set_protocol_step:
  assumes rcpt: "bmRequestType_bit_recipient sreq = TUSB_REQ_RCPT_INTERFACE"
    and cls: "bmRequestType_bit_type sreq = TUSB_REQ_TYPE_CLASS"
    and dir: "bmRequestType_bit_direction sreq = 0"
    and breq: "bRequest sreq = HID_REQ_CONTROL_SET_PROTOCOL"
    and addressed: "wIndex sreq = ucast n"
    and bound: "get_instance_by_itf (instances s) n = Some i"
    and port: "rhp = rhport (instances s ! i)"
  shows "snd (chidd_control_xfer_cb app mem rhp CONTROL_STAGE_SETUP sreq s)
           = s\<lparr>instances := (instances s)
                  [i := (instances s ! i)\<lparr>protocol_mode := tu_u16_low (wValue sreq)\<rparr>],
                calls := calls s @ Tud_control_status rhp sreq
                  # (case chidd_set_protocol_cb app of
                       None \<Rightarrow> []
                     | Some cb \<Rightarrow> [App_callback (Chidd_set_protocol_cb n (ucast (wValue sreq)))])\<rparr>"
proof -
  from get_instance_by_itf_Some [OF bound] have n: "itf_num (instances s ! i) = n" by simp
  show ?thesis
    unfolding chidd_control_to_class [OF rcpt cls bound addressed port]
    using dir breq port n
    by (simp add: chidd_class_specific_request_handler_def Let_def hid_request_codes
        tud_control_status_def invoke_def split: option.splits)
qed

lemma get_instance_by_itf_from_ids:
  "map itf_num xs = map itf_num ys \<Longrightarrow> map ep_in xs = map ep_in ys
   \<Longrightarrow> map ep_out xs = map ep_out ys
   \<Longrightarrow> get_instance_by_itf_from k xs n = get_instance_by_itf_from k ys n"
proof (induction xs arbitrary: ys k)
  case Nil
  then show ?case by simp
next
  case (Cons x xs)
  then obtain y ys' where ys: "ys = y # ys'" by (cases ys) auto
  with Cons.prems have h: "itf_num x = itf_num y" "ep_in x = ep_in y" "ep_out x = ep_out y"
    "map itf_num xs = map itf_num ys'" "map ep_in xs = map ep_in ys'"
    "map ep_out xs = map ep_out ys'" by simp_all
  from Cons.IH [OF h(4-6)] h(1-3) ys show ?case by auto
qed

lemma map_update_same: "f y = f (xs ! i) \<Longrightarrow> map f (xs[i := y]) = map f xs"
proof (cases "i < length xs")
  case True
  assume "f y = f (xs ! i)"
  with True show ?thesis by (simp add: map_update list_update_same_conv)
next
  case False
  then show ?thesis by (simp add: list_update_beyond)
qed

lemma get_instance_by_itf_update:
  assumes "itf_num y = itf_num (xs ! i)" "ep_in y = ep_in (xs ! i)" "ep_out y = ep_out (xs ! i)"
  shows "get_instance_by_itf (xs[i := y]) n = get_instance_by_itf xs n"
  unfolding get_instance_by_itf_def
  using assms by (intro get_instance_by_itf_from_ids map_update_same) simp_all

text \<open>
  Claim C7. For a bound HID instance, a \<open>SET_PROTOCOL\<close> request (direction OUT) with
  \<open>wValue = 0\<close> at the SETUP stage first sends the status and sets \<open>protocol_mode\<close> to
  Boot (0). A \<open>GET_PROTOCOL\<close> request (direction IN) at SETUP replies with one byte, the
  instance's \<open>protocol_mode\<close> field, and changes nothing else; so after the
  \<open>SET_PROTOCOL\<close> every \<open>GET_PROTOCOL\<close>, however many follow one another, replies 0.
  After a successful \<open>chidd_open\<close> the instance it bound has \<open>protocol_mode\<close> Report (1).
\<close>

theorem chidd_protocol_mode_set_get:
  assumes bound: "get_instance_by_itf (instances s) n = Some i"
    and port: "rhp = rhport (instances s ! i)"
    and s_rcpt: "bmRequestType_bit_recipient sreq = TUSB_REQ_RCPT_INTERFACE"
    and s_cls: "bmRequestType_bit_type sreq = TUSB_REQ_TYPE_CLASS"
    and s_dir: "bmRequestType_bit_direction sreq = 0"
    and s_breq: "bRequest sreq = HID_REQ_CONTROL_SET_PROTOCOL"
    and s_addr: "wIndex sreq = ucast n"
    and s_val: "wValue sreq = 0"
    and g_rcpt: "bmRequestType_bit_recipient greq = TUSB_REQ_RCPT_INTERFACE"
    and g_cls: "bmRequestType_bit_type greq = TUSB_REQ_TYPE_CLASS"
    and g_dir: "bmRequestType_bit_direction greq = 1"
    and g_breq: "bRequest greq = HID_REQ_CONTROL_GET_PROTOCOL"
    and g_addr: "wIndex greq = ucast n"
    and opened: "chidd_open app mem rhp' desc_itf max_len s0 = (drv_len, s0')"
    and open_ok: "drv_len \<noteq> 0"
    and free: "get_free_instance (instances s0) = Some j"
  shows "(let s1 = snd (chidd_control_xfer_cb app mem rhp CONTROL_STAGE_SETUP sreq s) in
            hd (new_calls s s1) = Tud_control_status rhp sreq
          \<and> protocol_mode (instances s1 ! i) = HID_PROTOCOL_BOOT
          \<and> (\<forall>k. let sk = ((\<lambda>u. snd (chidd_control_xfer_cb app mem rhp CONTROL_STAGE_SETUP greq u)) ^^ k) s1
                   in chidd_control_xfer_cb app mem rhp CONTROL_STAGE_SETUP greq sk
                        = (True, sk\<lparr>calls := calls sk
                                     @ [Tud_control_xfer rhp greq (Protocol_mode_of i) 1]\<rparr>)
                      \<and> chidd_buffer_bytes sk (Protocol_mode_of i) = Some [HID_PROTOCOL_BOOT]))
       \<and> chidd_control_xfer_cb app mem rhp CONTROL_STAGE_SETUP greq s
            = (True, s\<lparr>calls := calls s @ [Tud_control_xfer rhp greq (Protocol_mode_of i) 1]\<rparr>)
       \<and> chidd_buffer_bytes s (Protocol_mode_of i) = Some [protocol_mode (instances s ! i)]
       \<and> protocol_mode (instances s0' ! j) = HID_PROTOCOL_REPORT"
proof -
  from get_instance_by_itf_Some [OF bound] have i: "i < length (instances s)" by simp
  let ?s1 = "snd (chidd_control_xfer_cb app mem rhp CONTROL_STAGE_SETUP sreq s)"
  note set = chidd_set_protocol_step [OF s_rcpt s_cls s_dir s_breq s_addr bound port, where app = app and mem = mem]
  have st: "hd (new_calls s ?s1) = Tud_control_status rhp sreq"
    unfolding set by (simp add: new_calls_def)
  have mode: "protocol_mode (instances ?s1 ! i) = HID_PROTOCOL_BOOT"
    unfolding set using i s_val
    by (simp add: u16_bytes HID_PROTOCOL_BOOT_def)
  have bound1: "get_instance_by_itf (instances ?s1) n = Some i"
    unfolding set using bound by (simp add: get_instance_by_itf_update)
  have port1: "rhp = rhport (instances ?s1 ! i)"
    unfolding set using port i by simp
  have iter: "chidd_control_xfer_cb app mem rhp CONTROL_STAGE_SETUP greq sk
        = (True, sk\<lparr>calls := calls sk @ [Tud_control_xfer rhp greq (Protocol_mode_of i) 1]\<rparr>)
      \<and> chidd_buffer_bytes sk (Protocol_mode_of i) = Some [HID_PROTOCOL_BOOT]"
    if "sk = ((\<lambda>u. snd (chidd_control_xfer_cb app mem rhp CONTROL_STAGE_SETUP greq u)) ^^ k) ?s1"
    for k sk
  proof -
    from that chidd_get_protocol_iterate [OF g_rcpt g_cls g_dir g_breq g_addr bound1 port1, where app = app and mem = mem and k = k]
    have same: "instances sk = instances ?s1" by simp
    with bound1 port1 have b: "get_instance_by_itf (instances sk) n = Some i"
      "rhp = rhport (instances sk ! i)" by simp_all
    from chidd_get_protocol_step [OF g_rcpt g_cls g_dir g_breq g_addr b, where app = app and mem = mem] same mode
    show ?thesis by simp
  qed
  note get = chidd_get_protocol_step [OF g_rcpt g_cls g_dir g_breq g_addr bound port, where app = app and mem = mem]
  note op = chidd_open_protocol_mode [OF opened open_ok free]
  from st mode iter get op show ?thesis
    by (simp add: Let_def)
qed

text \<open>On the bound sample instance (mode Report): \<open>GET_PROTOCOL\<close> replies 1, after
  \<open>SET_PROTOCOL(0)\<close> it replies 0; binding the example's keyboard interface returns 32 and
  leaves mode 1.\<close>

theorem chidd_protocol_mode_set_get_witness:
  "hd (new_calls chidd_bound_state
         (snd (chidd_control_xfer_cb chidd_app_minimal (memory_of hid_desc_interface) 0
                 CONTROL_STAGE_SETUP (request_set_protocol 0) chidd_bound_state)))
     = Tud_control_status 0 (request_set_protocol 0)
   \<and> protocol_mode (instances
         (snd (chidd_control_xfer_cb chidd_app_minimal (memory_of hid_desc_interface) 0
                 CONTROL_STAGE_SETUP (request_set_protocol 0) chidd_bound_state)) ! 0) = 0
   \<and> chidd_buffer_bytes
         (snd (chidd_control_xfer_cb chidd_app_minimal (memory_of hid_desc_interface) 0
                 CONTROL_STAGE_SETUP request_get_protocol
                 (snd (chidd_control_xfer_cb chidd_app_minimal (memory_of hid_desc_interface) 0
                         CONTROL_STAGE_SETUP (request_set_protocol 0) chidd_bound_state))))
         (Protocol_mode_of 0) = Some [0]
   \<and> chidd_control_xfer_cb chidd_app_minimal (memory_of hid_desc_interface) 0
         CONTROL_STAGE_SETUP request_get_protocol chidd_bound_state
       = (True, chidd_bound_state
            \<lparr>calls := [Tud_control_xfer 0 request_get_protocol (Protocol_mode_of 0) 1]\<rparr>)
   \<and> chidd_buffer_bytes chidd_bound_state (Protocol_mode_of 0) = Some [1]
   \<and> fst (chidd_open chidd_app_minimal (memory_of hid_desc_interface) 0 0 32
              (chidd_reset 0 chidd_unbound_state)) = 32
   \<and> protocol_mode (instances
         (snd (chidd_open chidd_app_minimal (memory_of hid_desc_interface) 0 0 32
                 (chidd_reset 0 chidd_unbound_state))) ! 0) = 1"
proof -
  let ?mem = "memory_of hid_desc_interface"
  let ?app = chidd_app_minimal
  let ?s1 = "snd (chidd_control_xfer_cb ?app ?mem 0 CONTROL_STAGE_SETUP (request_set_protocol 0)
                    chidd_bound_state)"
  let ?o = "chidd_open ?app ?mem 0 0 32 (chidd_reset 0 chidd_unbound_state)"
  have b: "get_instance_by_itf (instances chidd_bound_state) 0 = Some 0"
    "0 = rhport (instances chidd_bound_state ! 0)"
    by (simp_all add: chidd_sample_defs)
  have sr: "bmRequestType_bit_recipient (request_set_protocol 0) = TUSB_REQ_RCPT_INTERFACE"
    "bmRequestType_bit_type (request_set_protocol 0) = TUSB_REQ_TYPE_CLASS"
    "bmRequestType_bit_direction (request_set_protocol 0) = 0"
    "bRequest (request_set_protocol 0) = HID_REQ_CONTROL_SET_PROTOCOL"
    "wIndex (request_set_protocol 0) = ucast (0 :: uint8_t)"
    "wValue (request_set_protocol 0) = 0"
    by (simp_all add: request_bits request_set_protocol_def TUSB_REQ_RCPT_INTERFACE_def
        TUSB_REQ_TYPE_CLASS_def HID_REQ_CONTROL_SET_PROTOCOL_def)
  have gr: "bmRequestType_bit_recipient request_get_protocol = TUSB_REQ_RCPT_INTERFACE"
    "bmRequestType_bit_type request_get_protocol = TUSB_REQ_TYPE_CLASS"
    "bmRequestType_bit_direction request_get_protocol = 1"
    "bRequest request_get_protocol = HID_REQ_CONTROL_GET_PROTOCOL"
    "wIndex request_get_protocol = ucast (0 :: uint8_t)"
    by (simp_all add: request_bits request_get_protocol_def TUSB_REQ_RCPT_INTERFACE_def
        TUSB_REQ_TYPE_CLASS_def HID_REQ_CONTROL_GET_PROTOCOL_def)
  have len: "fst ?o = 32"
    by code_simp
  then have opened: "?o = (32, snd ?o)" "(32 :: uint16_t) \<noteq> 0"
    by (simp_all add: prod_eq_iff)
  have free: "get_free_instance (instances (chidd_reset 0 chidd_unbound_state)) = Some 0"
    by code_simp
  note T = chidd_protocol_mode_set_get [OF b sr gr opened free, unfolded Let_def]
  from T [THEN conjunct1, THEN conjunct2, THEN conjunct2, THEN spec, of 1]
  have g1: "chidd_buffer_bytes
      (snd (chidd_control_xfer_cb ?app ?mem 0 CONTROL_STAGE_SETUP request_get_protocol ?s1))
      (Protocol_mode_of 0) = Some [0]"
    by (simp add: HID_PROTOCOL_BOOT_def)
  from T [THEN conjunct2, THEN conjunct1]
  have g0: "chidd_control_xfer_cb ?app ?mem 0 CONTROL_STAGE_SETUP request_get_protocol chidd_bound_state
       = (True, chidd_bound_state
            \<lparr>calls := [Tud_control_xfer 0 request_get_protocol (Protocol_mode_of 0) 1]\<rparr>)"
    by (simp add: chidd_bound_state_def)
  from T [THEN conjunct2, THEN conjunct2, THEN conjunct1]
  have m0: "chidd_buffer_bytes chidd_bound_state (Protocol_mode_of 0) = Some [1]"
    by (simp add: chidd_bound_state_def chidd_bound_instance_def)
  from T [THEN conjunct1, THEN conjunct1] T [THEN conjunct1, THEN conjunct2, THEN conjunct1]
    g1 g0 m0 len T [THEN conjunct2, THEN conjunct2, THEN conjunct2]
  show ?thesis
    by (simp add: HID_PROTOCOL_BOOT_def HID_PROTOCOL_REPORT_def)
qed

section \<open>A rejected report keeps the IN endpoint claimed\<close>

text \<open>What each entry point of the HID driver leaves alone: the identifying fields of every
  instance, and the status of the endpoints it does not transfer on.\<close>

lemma chidd_send_report_frame:
  "map itf_num (instances (snd (chidd_send_report n report len t))) = map itf_num (instances t)
   \<and> map ep_in (instances (snd (chidd_send_report n report len t))) = map ep_in (instances t)
   \<and> map ep_out (instances (snd (chidd_send_report n report len t))) = map ep_out (instances t)
   \<and> (claimed (ep_status t x)
        \<longrightarrow> ep_status (snd (chidd_send_report n report len t)) x = ep_status t x)"
  by (auto simp: chidd_send_report_def Let_def usbd_edpt_claim_def usbd_edpt_xfer_def
      usbd_edpt_xfer_status_def map_update_same split: option.splits)

lemma chidd_receive_report_frame:
  "map itf_num (instances (snd (chidd_receive_report n report len t))) = map itf_num (instances t)
   \<and> map ep_in (instances (snd (chidd_receive_report n report len t))) = map ep_in (instances t)
   \<and> map ep_out (instances (snd (chidd_receive_report n report len t))) = map ep_out (instances t)
   \<and> ((\<forall>j < length (instances t). ep_out (instances t ! j) \<noteq> x)
        \<longrightarrow> ep_status (snd (chidd_receive_report n report len t)) x = ep_status t x)"
proof (cases "get_instance_by_itf (instances t) n")
  case None
  then show ?thesis by (simp add: chidd_receive_report_def)
next
  case (Some k)
  from get_instance_by_itf_Some [OF Some] have "k < length (instances t)" by simp
  with Some show ?thesis
    by (auto simp: chidd_receive_report_def Let_def usbd_edpt_xfer_def
        usbd_edpt_xfer_status_def map_update_same)
qed

lemma chidd_standard_keeps:
  "instances (snd (chidd_standard_request_handler app mem i stage request t)) = instances t
   \<and> ep_status (snd (chidd_standard_request_handler app mem i stage request t)) = ep_status t"
  by (auto simp: chidd_standard_request_handler_def Let_def tud_control_xfer_def invoke_def
      split: option.splits prod.splits)

lemma chidd_class_keeps:
  "map itf_num (instances (snd (chidd_class_specific_request_handler app i stage request t)))
     = map itf_num (instances t)
   \<and> map ep_in (instances (snd (chidd_class_specific_request_handler app i stage request t)))
     = map ep_in (instances t)
   \<and> map ep_out (instances (snd (chidd_class_specific_request_handler app i stage request t)))
     = map ep_out (instances t)
   \<and> ep_status (snd (chidd_class_specific_request_handler app i stage request t)) = ep_status t"
proof -
  consider (get_report) "bRequest request = 0x01" | (set_report) "bRequest request = 0x09"
    | (get_idle) "bRequest request = 0x02" | (set_idle) "bRequest request = 0x0a"
    | (get_protocol) "bRequest request = 0x03" | (set_protocol) "bRequest request = 0x0b"
    | (other) "bRequest request \<notin> {0x01, 0x09, 0x02, 0x0a, 0x03, 0x0b}"
    by auto
  then show ?thesis
  proof cases
    case get_report
    then show ?thesis
      by (simp add: chidd_class_specific_request_handler_def Let_def tud_control_xfer_def
          invoke_def map_update_same hid_request_codes split: prod.splits)
  next
    case set_report
    then show ?thesis
      by (simp add: chidd_class_specific_request_handler_def Let_def tud_control_xfer_def
          invoke_def map_update_same hid_request_codes split: prod.splits option.splits)
  next
    case get_idle
    then show ?thesis
      by (simp add: chidd_class_specific_request_handler_def Let_def tud_control_xfer_def
          invoke_def map_update_same hid_request_codes split: prod.splits option.splits)
  next
    case set_idle
    then show ?thesis
      by (simp add: chidd_class_specific_request_handler_def Let_def tud_control_status_def
          invoke_def map_update_same hid_request_codes split: prod.splits option.splits)
  next
    case get_protocol
    then show ?thesis
      by (simp add: chidd_class_specific_request_handler_def Let_def tud_control_xfer_def
          invoke_def map_update_same hid_request_codes split: prod.splits option.splits)
  next
    case set_protocol
    then show ?thesis
      by (simp add: chidd_class_specific_request_handler_def Let_def tud_control_status_def
          invoke_def map_update_same hid_request_codes split: prod.splits option.splits)
  next
    case other
    then show ?thesis
      by (simp add: chidd_class_specific_request_handler_def Let_def hid_request_codes)
  qed
qed

lemma chidd_control_frame:
  "map itf_num (instances (snd (chidd_control_xfer_cb app mem rhp stage request t)))
     = map itf_num (instances t)
   \<and> map ep_in (instances (snd (chidd_control_xfer_cb app mem rhp stage request t)))
     = map ep_in (instances t)
   \<and> map ep_out (instances (snd (chidd_control_xfer_cb app mem rhp stage request t)))
     = map ep_out (instances t)
   \<and> ep_status (snd (chidd_control_xfer_cb app mem rhp stage request t)) = ep_status t"
  using chidd_standard_keeps [of app mem _ stage request t]
    chidd_class_keeps [of app _ stage request t]
  by (simp add: chidd_control_xfer_cb_def Let_def split: option.splits)

lemma chidd_xfer_cb_frame:
  "map itf_num (instances (snd (chidd_xfer_cb app rhp ep result m t))) = map itf_num (instances t)
   \<and> map ep_in (instances (snd (chidd_xfer_cb app rhp ep result m t))) = map ep_in (instances t)
   \<and> map ep_out (instances (snd (chidd_xfer_cb app rhp ep result m t))) = map ep_out (instances t)
   \<and> ((\<forall>j < length (instances t). ep_out (instances t ! j) \<noteq> x)
        \<longrightarrow> ep_status (snd (chidd_xfer_cb app rhp ep result m t)) x = ep_status t x)"
proof (cases "get_instance_by_ep (instances t) ep")
  case None
  then show ?thesis by (simp add: chidd_xfer_cb_def)
next
  case (Some k)
  from get_instance_by_ep_Some [OF Some] have "k < length (instances t)" by simp
  with Some show ?thesis
    by (auto simp: chidd_xfer_cb_def Let_def usbd_edpt_xfer_def invoke_def
        usbd_edpt_xfer_status_def map_update_same)
qed

lemma usbd_xfer_complete_frame:
  "map itf_num (instances (snd (usbd_xfer_complete app rhp ep result m t))) = map itf_num (instances t)
   \<and> map ep_in (instances (snd (usbd_xfer_complete app rhp ep result m t))) = map ep_in (instances t)
   \<and> map ep_out (instances (snd (usbd_xfer_complete app rhp ep result m t))) = map ep_out (instances t)
   \<and> (\<not> busy (ep_status t x) \<longrightarrow> (\<forall>j < length (instances t). ep_out (instances t ! j) \<noteq> x)
        \<longrightarrow> ep_status (snd (usbd_xfer_complete app rhp ep result m t)) x = ep_status t x)"
proof (cases "busy (ep_status t ep)")
  case False
  then show ?thesis by (simp add: usbd_xfer_complete_def)
next
  case True
  let ?t0 = "t\<lparr>ep_status := (ep_status t)(ep := \<lparr>busy = False, claimed = False\<rparr>)\<rparr>"
  from True have run: "usbd_xfer_complete app rhp ep result m t = chidd_xfer_cb app rhp ep result m ?t0"
    by (simp add: usbd_xfer_complete_def)
  from chidd_xfer_cb_frame [of app rhp ep result m ?t0 x] True
  show ?thesis unfolding run by auto
qed


lemma get_free_instance_from_free:
  "get_free_instance_from k0 xs = Some k \<Longrightarrow>
     k0 \<le> k \<and> k - k0 < length xs \<and> \<not> in_use (xs ! (k - k0))
     \<and> (\<forall>j < k - k0. in_use (xs ! j))"
proof (induction xs arbitrary: k0)
  case Nil
  then show ?case by simp
next
  case (Cons x xs)
  show ?case
  proof (cases "0 = ep_in x \<and> 0 = ep_out x")
    case True
    with Cons.prems have "k = k0" by simp
    with True show ?thesis by (auto simp: in_use_def)
  next
    case False
    with Cons.prems have rest: "get_free_instance_from (Suc k0) xs = Some k"
      by (auto split: if_splits)
    from Cons.IH [OF rest] have ih: "Suc k0 \<le> k" "k - Suc k0 < length xs"
      "\<not> in_use (xs ! (k - Suc k0))" "\<forall>j < k - Suc k0. in_use (xs ! j)" by simp_all
    from ih(1) have split: "k - k0 = Suc (k - Suc k0)" by simp
    from False have x: "in_use x" by (auto simp: in_use_def)
    have "\<forall>j < k - k0. in_use ((x # xs) ! j)"
    proof (intro allI impI)
      fix j assume "j < k - k0"
      with split ih(4) x show "in_use ((x # xs) ! j)" by (cases j) auto
    qed
    with ih split show ?thesis by simp
  qed
qed

lemma get_free_instance_free:
  "get_free_instance xs = Some k \<Longrightarrow>
     k < length xs \<and> \<not> in_use (xs ! k) \<and> (\<forall>j < k. in_use (xs ! j))"
  using get_free_instance_from_free [of 0 xs k] by (simp add: get_free_instance_def)

lemma get_instance_by_itf_from_update_later:
  "get_instance_by_itf_from k0 xs n = Some i \<Longrightarrow> i - k0 < k
   \<Longrightarrow> get_instance_by_itf_from k0 (xs[k := y]) n = Some i"
proof (induction xs arbitrary: k0 k)
  case Nil
  then show ?case by simp
next
  case (Cons x xs)
  from Cons.prems(2) obtain k' where k: "k = Suc k'" by (cases k) auto
  show ?case
  proof (cases "n = itf_num x \<and> (0 \<noteq> ep_in x \<or> 0 \<noteq> ep_out x)")
    case True
    with Cons.prems k show ?thesis by simp
  next
    case False
    with Cons.prems have rest: "get_instance_by_itf_from (Suc k0) xs n = Some i"
      by (auto split: if_splits)
    from get_instance_by_itf_from_Some [OF rest] have "Suc k0 \<le> i" by simp
    with Cons.prems(2) k have "i - Suc k0 < k'" by simp
    from Cons.IH [OF rest this] False k show ?thesis by auto
  qed
qed

lemma get_instance_by_itf_update_later:
  "get_instance_by_itf xs n = Some i \<Longrightarrow> i < k \<Longrightarrow> get_instance_by_itf (xs[k := y]) n = Some i"
  using get_instance_by_itf_from_update_later [of 0 xs n i k y]
  by (simp add: get_instance_by_itf_def)

lemma usbd_open_edpt_pair_direction:
  "e_out AND 0x80 = 0 \<Longrightarrow> e_in = 0 \<or> e_in AND 0x80 \<noteq> 0
   \<Longrightarrow> usbd_open_edpt_pair mem p k xfer_type e_out e_in = (ok, e_out', e_in')
   \<Longrightarrow> e_out' AND 0x80 = 0 \<and> (e_in' = 0 \<or> e_in' AND 0x80 \<noteq> 0)"
proof (induction k arbitrary: p e_out e_in)
  case 0
  then show ?case by simp
next
  case (Suc k)
  show ?case
  proof (cases "TUSB_DESC_ENDPOINT = tu_desc_type mem p \<and> xfer_type = mem (p + 3) AND 0x03")
    case False
    with Suc.prems show ?thesis by auto
  next
    case True
    show ?thesis
    proof (cases "mem (p + 2) AND 0x80 \<noteq> 0")
      case in_dir: True
      with True Suc.prems(3)
      have "usbd_open_edpt_pair mem (tu_desc_next mem p) k xfer_type e_out (mem (p + 2))
              = (ok, e_out', e_in')" by simp
      from Suc.IH [OF Suc.prems(1) _ this] in_dir show ?thesis by simp
    next
      case out_dir: False
      with True Suc.prems(3)
      have "usbd_open_edpt_pair mem (tu_desc_next mem p) k xfer_type (mem (p + 2)) e_in
              = (ok, e_out', e_in')" by simp
      from Suc.IH [OF _ Suc.prems(2) this] out_dir show ?thesis by simp
    qed
  qed
qed

lemma chidd_open_shape:
  "ep_status (snd (chidd_open app mem rhp desc_itf max_len t)) = ep_status t
   \<and> (instances (snd (chidd_open app mem rhp desc_itf max_len t)) = instances t
      \<or> (\<exists>k y. get_free_instance (instances t) = Some k
            \<and> instances (snd (chidd_open app mem rhp desc_itf max_len t)) = (instances t)[k := y]
            \<and> ep_out y AND 0x80 = 0 \<and> (ep_in y = 0 \<or> ep_in y AND 0x80 \<noteq> 0)))"
proof (cases "get_free_instance (instances t)")
  case None
  then show ?thesis by (simp add: chidd_open_def Let_def)
next
  case (Some k)
  from get_free_instance_free [OF Some]
  have free: "ep_in (instances t ! k) = 0" "ep_out (instances t ! k) = 0"
    by (simp_all add: in_use_def)
  let ?p = "tu_desc_next mem (tu_desc_next mem desc_itf)"
  obtain ok e_out e_in where pair:
    "usbd_open_edpt_pair mem ?p (unat (bNumEndpoints mem desc_itf)) TUSB_XFER_INTERRUPT 0 0
       = (ok, e_out, e_in)" by (cases "usbd_open_edpt_pair mem ?p
         (unat (bNumEndpoints mem desc_itf)) TUSB_XFER_INTERRUPT 0 0") auto
  from usbd_open_edpt_pair_direction [OF _ _ pair]
  have dir: "e_out AND 0x80 = 0" "e_in = 0 \<or> e_in AND 0x80 \<noteq> 0" by simp_all
  from Some free pair dir show ?thesis
    by (cases ok) (auto simp: chidd_open_def Let_def invoke_def)
qed


lemma map_eq_nth: "map f xs = map f ys \<Longrightarrow> j < length ys \<Longrightarrow> f (xs ! j) = f (ys ! j)"
  by (metis length_map nth_map)

lemma chidd_well_formed_ids:
  assumes ins: "map ep_in (instances t') = map ep_in (instances t)"
    and outs: "map ep_out (instances t') = map ep_out (instances t)"
  shows "chidd_well_formed t' = chidd_well_formed t"
proof -
  from ins have len: "length (instances t') = length (instances t)"
    by (rule map_eq_imp_length_eq)
  have same: "ep_in (instances t' ! j) = ep_in (instances t ! j)"
    "ep_out (instances t' ! j) = ep_out (instances t ! j)"
    if "j < length (instances t)" for j
    using map_eq_nth [OF ins that] map_eq_nth [OF outs that] by simp_all
  have use: "in_use (instances t' ! j) = in_use (instances t ! j)"
    if "j < length (instances t)" for j
    using same [OF that] by (simp add: in_use_def)
  show ?thesis
    unfolding chidd_well_formed_def len
    by (intro arg_cong2 [where f = "(\<and>)"] iff_allI imp_cong refl)
       (simp_all add: same use)
qed

lemma in_claim_held_ids:
  assumes itfs: "map itf_num (instances t') = map itf_num (instances t)"
    and ins: "map ep_in (instances t') = map ep_in (instances t)"
    and outs: "map ep_out (instances t') = map ep_out (instances t)"
    and status: "ep_status t' (ep_in (instances t ! i)) = ep_status t (ep_in (instances t ! i))"
    and held: "in_claim_held n i t"
  shows "in_claim_held n i t'"
proof -
  from held have b: "get_instance_by_itf (instances t) n = Some i"
    by (simp add: in_claim_held_def)
  from get_instance_by_itf_Some [OF b] have i: "i < length (instances t)" by simp
  from get_instance_by_itf_from_ids [OF itfs ins outs, of 0 n] b
  have b': "get_instance_by_itf (instances t') n = Some i"
    by (simp add: get_instance_by_itf_def)
  from map_eq_nth [OF ins i] have "ep_in (instances t' ! i) = ep_in (instances t ! i)" .
  with b' status held show ?thesis by (simp add: in_claim_held_def)
qed

lemma chidd_reset_well_formed: "chidd_well_formed (chidd_reset rhp t)"
  by (simp add: chidd_well_formed_def chidd_reset_def chidd_instance_zero_def in_use_def)

lemma chidd_open_well_formed:
  assumes wf: "chidd_well_formed t"
  shows "chidd_well_formed (snd (chidd_open app mem rhp desc_itf max_len t))"
proof -
  let ?t' = "snd (chidd_open app mem rhp desc_itf max_len t)"
  from chidd_open_shape [of app mem rhp desc_itf max_len t]
  consider (same) "instances ?t' = instances t"
    | (bound) k y where "get_free_instance (instances t) = Some k"
        "instances ?t' = (instances t)[k := y]"
        "ep_out y AND 0x80 = 0" "ep_in y = 0 \<or> ep_in y AND 0x80 \<noteq> 0"
    by auto
  then show ?thesis
  proof cases
    case same
    with wf chidd_well_formed_ids [of ?t' t] show ?thesis by simp
  next
    case bound
    let ?xs = "instances t"
    from get_free_instance_free [OF bound(1)]
    have k: "k < length ?xs" "\<not> in_use (?xs ! k)" "\<forall>j < k. in_use (?xs ! j)" by simp_all
    from wf have dir: "\<And>j. j < length ?xs \<Longrightarrow> ep_out (?xs ! j) AND 0x80 = 0
        \<and> (ep_in (?xs ! j) = 0 \<or> ep_in (?xs ! j) AND 0x80 \<noteq> 0)"
      and front: "\<And>j k'. j < length ?xs \<Longrightarrow> k' < j \<Longrightarrow> in_use (?xs ! j) \<Longrightarrow> in_use (?xs ! k')"
      by (simp_all add: chidd_well_formed_def)
    have after: "\<not> in_use (?xs ! j)" if "j < length ?xs" "k < j" for j
      using front [OF that] k(2) by auto
    have d: "ep_out (?xs[k := y] ! j) AND 0x80 = 0
        \<and> (ep_in (?xs[k := y] ! j) = 0 \<or> ep_in (?xs[k := y] ! j) AND 0x80 \<noteq> 0)"
      if "j < length ?xs" for j
      using dir [OF that] bound(3,4) by (cases "j = k") (simp_all add: nth_list_update_any)
    have f: "in_use (?xs[k := y] ! k')"
      if j: "j < length ?xs" and k': "k' < j" and u: "in_use (?xs[k := y] ! j)" for j k'
    proof (cases "j = k")
      case True
      with k' k(3) show ?thesis by (simp add: nth_list_update_any)
    next
      case False
      with u have uj: "in_use (?xs ! j)" by (simp add: nth_list_update_any)
      with after [OF j] False have "j < k" by (cases "k < j") auto
      with k' have "k' \<noteq> k" by simp
      with front [OF j k' uj] show ?thesis by (simp add: nth_list_update_any)
    qed
    from d f show ?thesis
      unfolding chidd_well_formed_def bound(2) by simp
  qed
qed

lemma chidd_open_held:
  assumes wf: "chidd_well_formed t" and held: "in_claim_held n i t"
  shows "in_claim_held n i (snd (chidd_open app mem rhp desc_itf max_len t))"
proof -
  let ?t' = "snd (chidd_open app mem rhp desc_itf max_len t)"
  from held have b: "get_instance_by_itf (instances t) n = Some i"
    and e: "ep_in (instances t ! i) \<noteq> 0" by (simp_all add: in_claim_held_def)
  from get_instance_by_itf_Some [OF b] have i: "i < length (instances t)" by simp
  from chidd_open_shape [of app mem rhp desc_itf max_len t]
  have status: "ep_status ?t' = ep_status t" by simp
  from chidd_open_shape [of app mem rhp desc_itf max_len t]
  consider (same) "instances ?t' = instances t"
    | (bound) k y where "get_free_instance (instances t) = Some k"
        "instances ?t' = (instances t)[k := y]"
    by auto
  then show ?thesis
  proof cases
    case same
    with held status show ?thesis by (simp add: in_claim_held_def)
  next
    case bound
    from get_free_instance_free [OF bound(1)]
    have k: "\<not> in_use (instances t ! k)" "\<forall>j < k. in_use (instances t ! j)" by simp_all
    from e have ui: "in_use (instances t ! i)" by (simp add: in_use_def)
    from wf i ui have "\<forall>k' < i. in_use (instances t ! k')"
      by (simp add: chidd_well_formed_def)
    with k(1) ui have ik: "i < k" by (cases "k < i") (auto simp: not_less le_less)
    from get_instance_by_itf_update_later [OF b ik]
    have "get_instance_by_itf (instances ?t') n = Some i" by (simp add: bound(2))
    moreover from ik have "instances ?t' ! i = instances t ! i"
      by (simp add: bound(2) nth_list_update_any)
    ultimately show ?thesis using held status by (simp add: in_claim_held_def)
  qed
qed

lemma chidd_step_well_formed:
  assumes wf: "chidd_well_formed t"
  shows "chidd_well_formed (snd (chidd_step app mem c t))"
proof (cases c)
  case (Send_report m report len)
  with wf chidd_send_report_frame [of m report len t]
    chidd_well_formed_ids [of "snd (chidd_send_report m report len t)" t]
  show ?thesis by simp
next
  case (Receive_report m report len)
  with wf chidd_receive_report_frame [of m report len t]
    chidd_well_formed_ids [of "snd (chidd_receive_report m report len t)" t]
  show ?thesis by simp
next
  case (Control_request rhp stage request)
  with wf chidd_control_frame [of app mem rhp stage request t]
    chidd_well_formed_ids [of "snd (chidd_control_xfer_cb app mem rhp stage request t)" t]
  show ?thesis by simp
next
  case (Xfer_complete rhp ep result m)
  with wf usbd_xfer_complete_frame [of app rhp ep result m t]
    chidd_well_formed_ids [of "snd (usbd_xfer_complete app rhp ep result m t)" t]
  show ?thesis by simp
next
  case (Open_interface rhp desc_itf max_len)
  with chidd_open_well_formed [OF wf, of app mem rhp desc_itf max_len]
  show ?thesis by (simp add: case_prod_beta)
next
  case (Bus_reset rhp)
  with chidd_reset_well_formed show ?thesis by (simp add: usbd_bus_reset_def)
qed

lemma chidd_run_well_formed:
  "chidd_well_formed t \<Longrightarrow> chidd_well_formed (chidd_run app mem cs t)"
proof (induction cs arbitrary: t)
  case Nil
  then show ?case by simp
next
  case (Cons c cs)
  from Cons.IH [OF chidd_step_well_formed [OF Cons.prems]] show ?case by simp
qed

lemma chidd_step_held:
  assumes wf: "chidd_well_formed t" and held: "in_claim_held n i t"
    and no_reset: "\<not> is_bus_reset c"
  shows "in_claim_held n i (snd (chidd_step app mem c t))"
proof -
  let ?e = "ep_in (instances t ! i)"
  from held have b: "get_instance_by_itf (instances t) n = Some i" and e: "?e \<noteq> 0"
    and cl: "claimed (ep_status t ?e)" and nb: "\<not> busy (ep_status t ?e)"
    by (simp_all add: in_claim_held_def)
  from get_instance_by_itf_Some [OF b] have i: "i < length (instances t)" by simp
  from wf i e have in_dir: "?e AND 0x80 \<noteq> 0" by (auto simp: chidd_well_formed_def)
  have not_out: "\<forall>j < length (instances t). ep_out (instances t ! j) \<noteq> ?e"
  proof (intro allI impI)
    fix j assume "j < length (instances t)"
    with wf have "ep_out (instances t ! j) AND 0x80 = 0" by (simp add: chidd_well_formed_def)
    with in_dir show "ep_out (instances t ! j) \<noteq> ?e" by auto
  qed
  show ?thesis
  proof (cases c)
    case (Send_report m report len)
    from chidd_send_report_frame [of m report len t ?e] cl
      in_claim_held_ids [of "snd (chidd_send_report m report len t)" t i n] held
    show ?thesis unfolding Send_report by simp
  next
    case (Receive_report m report len)
    from chidd_receive_report_frame [of m report len t ?e] not_out
      in_claim_held_ids [of "snd (chidd_receive_report m report len t)" t i n] held
    show ?thesis unfolding Receive_report by simp
  next
    case (Control_request rhp stage request)
    from chidd_control_frame [of app mem rhp stage request t]
      in_claim_held_ids [of "snd (chidd_control_xfer_cb app mem rhp stage request t)" t i n] held
    show ?thesis unfolding Control_request by simp
  next
    case (Xfer_complete rhp ep result m)
    from usbd_xfer_complete_frame [of app rhp ep result m t ?e] not_out nb
      in_claim_held_ids [of "snd (usbd_xfer_complete app rhp ep result m t)" t i n] held
    show ?thesis unfolding Xfer_complete by simp
  next
    case (Open_interface rhp desc_itf max_len)
    with chidd_open_held [OF wf held, of app mem rhp desc_itf max_len]
    show ?thesis by (simp add: case_prod_beta)
  next
    case (Bus_reset rhp)
    with no_reset show ?thesis by simp
  qed
qed

lemma chidd_run_held:
  "chidd_well_formed t \<Longrightarrow> in_claim_held n i t \<Longrightarrow> \<not> list_ex is_bus_reset cs
   \<Longrightarrow> in_claim_held n i (chidd_run app mem cs t)"
proof (induction cs arbitrary: t)
  case Nil
  then show ?case by simp
next
  case (Cons c cs)
  from Cons.prems(3) have c: "\<not> is_bus_reset c" and cs: "\<not> list_ex is_bus_reset cs" by simp_all
  from Cons.IH [OF chidd_step_well_formed [OF Cons.prems(1)]
      chidd_step_held [OF Cons.prems(1,2) c] cs]
  show ?case by simp
qed

lemma chidd_send_report_held:
  "in_claim_held n i t \<Longrightarrow> \<not> fst (chidd_send_report n report len t)"
  by (simp add: in_claim_held_def chidd_send_report_def Let_def usbd_edpt_claim_def)


text \<open>
  Claim C10. \<open>chidd_send_report\<close> claims the IN endpoint and overwrites the instance's
  stored IN-buffer pointer before it checks its arguments. For a bound instance with an idle
  IN endpoint, a call with a NULL buffer or \<open>len = 0\<close> therefore returns false, enqueues
  nothing, and leaves the endpoint claimed and the stored pointer set to the rejected
  buffer. The claim is never released for that instance: when the state was reached from
  a reset of the driver and the instance has an IN endpoint, then after any further run of
  reports sent and armed, control requests, transfer completions and interfaces opened,
  up to the next bus reset (which invalidates the instance), every \<open>send_report\<close> on
  that interface returns false.
\<close>

theorem chidd_send_report_rejected_keeps_claim:
  assumes bound: "get_instance_by_itf (instances s) n = Some i"
    and idle: "\<not> busy (ep_status s (ep_in (instances s ! i)))"
      "\<not> claimed (ep_status s (ep_in (instances s ! i)))"
    and bad: "report = NULL \<or> len = 0"
  shows "let s1 = snd (chidd_send_report n report len s) in
           \<not> fst (chidd_send_report n report len s)
         \<and> claimed (ep_status s1 (ep_in (instances s ! i)))
         \<and> hid_transfer_in_buf (instances s1 ! i) = report
         \<and> calls s1 = calls s
         \<and> (\<forall>app0 mem0 history rhp0 s0 app mem later report' len'.
               s = chidd_run app0 mem0 history (chidd_reset rhp0 s0)
               \<longrightarrow> ep_in (instances s ! i) \<noteq> 0
               \<longrightarrow> \<not> list_ex is_bus_reset later
               \<longrightarrow> \<not> fst (chidd_send_report n report' len' (chidd_run app mem later s1)))"
proof -
  from get_instance_by_itf_Some [OF bound] have i: "i < length (instances s)" by simp
  let ?s1 = "snd (chidd_send_report n report len s)"
  have run: "chidd_send_report n report len s =
      (False, s\<lparr>instances := (instances s)[i := (instances s ! i)\<lparr>hid_transfer_in_buf := report\<rparr>],
                ep_status := (ep_status s)(ep_in (instances s ! i) :=
                   (ep_status s (ep_in (instances s ! i)))\<lparr>claimed := True\<rparr>)\<rparr>)"
    using bound idle bad
    by (auto simp: chidd_send_report_def Let_def usbd_edpt_claim_def)
  have later: "\<not> fst (chidd_send_report n report' len' (chidd_run app mem cs ?s1))"
    if reached: "s = chidd_run app0 mem0 history (chidd_reset rhp0 s0)"
      and has_in: "ep_in (instances s ! i) \<noteq> 0"
      and no_reset: "\<not> list_ex is_bus_reset cs"
    for app0 mem0 history rhp0 s0 app mem cs report' len'
  proof -
    from chidd_run_well_formed [OF chidd_reset_well_formed, of app0 mem0 history rhp0 s0]
    have "chidd_well_formed s" unfolding reached [symmetric] .
    with chidd_send_report_frame [of n report len s]
      chidd_well_formed_ids [of ?s1 s]
    have wf: "chidd_well_formed ?s1" by simp
    have held: "in_claim_held n i ?s1"
      using bound idle has_in i
      by (simp add: run in_claim_held_def get_instance_by_itf_update)
    from chidd_send_report_held [OF chidd_run_held [OF wf held no_reset]]
    show ?thesis .
  qed
  from later show ?thesis
    unfolding Let_def using i by (simp add: run)
qed

text \<open>A report of length 0 on the instance bound after a reset, then a well-formed one:
  directly, and after a control request, an armed receive and its completion, a second
  interface offered to the driver, and a completion event for the IN endpoint.\<close>

theorem chidd_send_report_rejected_keeps_claim_witness:
  "\<not> fst (chidd_send_report 0 5000 0 chidd_enumerated_state)
   \<and> claimed (ep_status (snd (chidd_send_report 0 5000 0 chidd_enumerated_state)) 0x81)
   \<and> hid_transfer_in_buf (instances (snd (chidd_send_report 0 5000 0 chidd_enumerated_state)) ! 0)
       = 5000
   \<and> calls (snd (chidd_send_report 0 5000 0 chidd_enumerated_state)) = []
   \<and> \<not> fst (chidd_send_report 0 5000 8 (snd (chidd_send_report 0 5000 0 chidd_enumerated_state)))
   \<and> \<not> fst (chidd_send_report 0 5000 8
              (chidd_run chidd_app_minimal (memory_of hid_desc_interface)
                 [Control_request 0 CONTROL_STAGE_SETUP request_get_protocol,
                  Receive_report 0 6000 1,
                  Xfer_complete 0 0x01 XFER_RESULT_SUCCESS 1,
                  Open_interface 0 0 32,
                  Xfer_complete 0 0x81 XFER_RESULT_SUCCESS 8]
                 (snd (chidd_send_report 0 5000 0 chidd_enumerated_state))))"
proof -
  have b: "get_instance_by_itf (instances chidd_enumerated_state) 0 = Some 0"
    "\<not> busy (ep_status chidd_enumerated_state (ep_in (instances chidd_enumerated_state ! 0)))"
    "\<not> claimed (ep_status chidd_enumerated_state (ep_in (instances chidd_enumerated_state ! 0)))"
    by code_simp+
  have bad: "(5000 :: ptr) = NULL \<or> (0 :: uint16_t) = 0"
    by simp
  have v: "ep_in (instances chidd_enumerated_state ! 0) = 0x81" "calls chidd_enumerated_state = []"
    by code_simp+
  have has_in: "(0x81 :: uint8_t) \<noteq> 0" by simp
  note T = chidd_send_report_rejected_keeps_claim [OF b bad, unfolded Let_def v]
  note L = T [THEN conjunct2, THEN conjunct2, THEN conjunct2, THEN conjunct2, rule_format,
      OF chidd_enumerated_state_def has_in]
  from L [where app = chidd_app_minimal and mem = "memory_of hid_desc_interface"
      and later = "[]" and report' = 5000 and len' = 8]
  have n1: "\<not> fst (chidd_send_report 0 5000 8 (snd (chidd_send_report 0 5000 0 chidd_enumerated_state)))"
    by simp
  have "\<not> list_ex is_bus_reset
          [Control_request 0 CONTROL_STAGE_SETUP request_get_protocol,
           Receive_report 0 6000 1,
           Xfer_complete 0 0x01 XFER_RESULT_SUCCESS 1,
           Open_interface 0 0 32,
           Xfer_complete 0 0x81 XFER_RESULT_SUCCESS 8]" by simp
  from L [where app = chidd_app_minimal and mem = "memory_of hid_desc_interface"
      and report' = 5000 and len' = 8, OF this]
  have n2: "\<not> fst (chidd_send_report 0 5000 8
              (chidd_run chidd_app_minimal (memory_of hid_desc_interface)
                 [Control_request 0 CONTROL_STAGE_SETUP request_get_protocol,
                  Receive_report 0 6000 1,
                  Xfer_complete 0 0x01 XFER_RESULT_SUCCESS 1,
                  Open_interface 0 0 32,
                  Xfer_complete 0 0x81 XFER_RESULT_SUCCESS 8]
                 (snd (chidd_send_report 0 5000 0 chidd_enumerated_state))))" .
  from T [THEN conjunct1] T [THEN conjunct2, THEN conjunct1]
    T [THEN conjunct2, THEN conjunct2, THEN conjunct1]
    T [THEN conjunct2, THEN conjunct2, THEN conjunct2, THEN conjunct1] n1 n2
  show ?thesis by (intro conjI)
qed

text \<open>The stack does release a claim: a report that is accepted blocks the next one only
  until its transfer completes, and after a bus reset and a new \<open>chidd_open\<close> the
  interface, bound again, accepts reports although a rejected one came before the reset.\<close>

lemma chidd_completion_releases_claim:
  "fst (chidd_send_report 0 5000 8 chidd_enumerated_state)
   \<and> \<not> fst (chidd_send_report 0 5000 8
              (chidd_run chidd_app_minimal (memory_of hid_desc_interface)
                 [Send_report 0 5000 8] chidd_enumerated_state))
   \<and> fst (chidd_send_report 0 5000 8
            (chidd_run chidd_app_minimal (memory_of hid_desc_interface)
               [Send_report 0 5000 8, Xfer_complete 0 0x81 XFER_RESULT_SUCCESS 8]
               chidd_enumerated_state))"
  by code_simp

lemma chidd_bus_reset_releases_claim:
  "\<not> fst (chidd_send_report 0 5000 8
            (chidd_run chidd_app_minimal (memory_of hid_desc_interface)
               [Send_report 0 5000 0] chidd_enumerated_state))
   \<and> fst (chidd_send_report 0 5000 8
            (chidd_run chidd_app_minimal (memory_of hid_desc_interface)
               [Send_report 0 5000 0, Bus_reset 0, Open_interface 0 0 32]
               chidd_enumerated_state))"
  by code_simp

end
